theory Spec2Isabelle
  imports Complex_Main "HOL-Library.Sublist" "HOL-Library.Log_Nat"
begin

chapter \<open>The design-token pipeline: Figma variables to a token store to Swift sources\<close>

section \<open>Strings\<close>

text \<open>
  A JavaScript string is a sequence of UTF-16 code units; the model keeps it as the list
  of their numbers, so that \<open>length\<close> counts what \<open>.length\<close> counts. Literals of the
  source are written \<open>ascii ''...''\<close>. Case mappings are modelled for the code units
  0..255 (ASCII and Latin-1); a code unit above 255 is left unchanged by them (of
  those, JavaScript lower-cases the Kelvin sign and the dotted capital I into ASCII
  letters).
\<close>

type_synonym jsstring = "nat list"

definition ascii :: "string \<Rightarrow> jsstring" where
  "ascii s = map of_char s"

definition toLowerCase_unit :: "nat \<Rightarrow> nat" where
  "toLowerCase_unit c =
     (if (65 \<le> c \<and> c \<le> 90) \<or> (192 \<le> c \<and> c \<le> 222 \<and> c \<noteq> 215) then c + 32 else c)"

definition toLowerCase :: "jsstring \<Rightarrow> jsstring" where
  "toLowerCase s = map toLowerCase_unit s"

text \<open>\<open>s.includes(p)\<close>: \<open>p\<close> occurs in \<open>s\<close> as a contiguous run.\<close>

fun includes_str :: "jsstring \<Rightarrow> jsstring \<Rightarrow> bool" where
  "includes_str [] p = (p = [])"
| "includes_str (c # cs) p = (prefix p (c # cs) \<or> includes_str cs p)"

text \<open>
  A regular expression \<open>/w1|w2|...|wn/i\<close> whose alternatives are plain words. Without
  the \<open>u\<close> flag, two code units match under \<open>i\<close> when their canonical forms (the
  upper-case mapping, where that is a single code unit and does not turn a non-ASCII
  unit into an ASCII one) are equal. \<open>s.match(re)\<close> is used for its truth value only:
  it is truthy when some alternative matches at some position.
\<close>

definition canonicalize :: "nat \<Rightarrow> nat" where
  "canonicalize c =
     (if (97 \<le> c \<and> c \<le> 122) \<or> (224 \<le> c \<and> c \<le> 254 \<and> c \<noteq> 247) then c - 32
      else if c = 255 then 376
      else if c = 181 then 924
      else c)"

fun match_here :: "jsstring \<Rightarrow> jsstring \<Rightarrow> bool" where
  "match_here [] s = True"
| "match_here (p # ps) [] = False"
| "match_here (p # ps) (c # cs) = (canonicalize p = canonicalize c \<and> match_here ps cs)"

fun match_i :: "jsstring list \<Rightarrow> jsstring \<Rightarrow> bool" where
  "match_i alts [] = list_ex (\<lambda>a. match_here a []) alts"
| "match_i alts (c # cs) = (list_ex (\<lambda>a. match_here a (c # cs)) alts \<or> match_i alts cs)"

text \<open>\<open>s.replace(/^w/, '')\<close>: a leading \<open>w\<close> is removed, once.\<close>

definition replace_leading :: "jsstring \<Rightarrow> jsstring \<Rightarrow> jsstring" where
  "replace_leading w s = (if prefix w s then drop (length w) s else s)"

text \<open>\<open>s.replace(/[^a-z0-9]/g, '')\<close>: only lower-case ASCII letters and digits stay.\<close>

definition is_a_z_0_9 :: "nat \<Rightarrow> bool" where
  "is_a_z_0_9 c = ((97 \<le> c \<and> c \<le> 122) \<or> (48 \<le> c \<and> c \<le> 57))"

definition strip_non_alnum :: "jsstring \<Rightarrow> jsstring" where
  "strip_non_alnum s = filter is_a_z_0_9 s"

text \<open>
  \<open>s.replace(/\s+/g, '-')\<close>: every maximal run of white space becomes one hyphen. The
  white space of \<open>\s\<close>: tab, line feed, vertical tab, form feed, carriage return, space,
  no-break space, and the Unicode space separators and line terminators.
\<close>

definition is_space :: "nat \<Rightarrow> bool" where
  "is_space c =
     (c \<in> {9, 10, 11, 12, 13, 32, 160, 5760, 8232, 8233, 8239, 8287, 12288, 65279}
      \<or> (8192 \<le> c \<and> c \<le> 8202))"

function hyphenate :: "jsstring \<Rightarrow> jsstring" where
  "hyphenate [] = []"
| "hyphenate (c # cs) =
     (if is_space c then 45 # hyphenate (dropWhile is_space cs) else c # hyphenate cs)"
  by pat_completeness auto
termination
  by (relation "measure length") (auto simp: less_Suc_eq_le length_dropWhile_le)

text \<open>
  \<open>s.split(sep)\<close> for a separator of one code unit: the pieces between the separators;
  an empty string gives one empty piece.
\<close>

fun split_str :: "nat \<Rightarrow> jsstring \<Rightarrow> jsstring list" where
  "split_str sep [] = [[]]"
| "split_str sep (c # cs) =
     (if c = sep then [] # split_str sep cs
      else (case split_str sep cs of [] \<Rightarrow> [[c]] | k # ks \<Rightarrow> (c # k) # ks))"

text \<open>\<open>s.trim()\<close>: white space is removed at both ends.\<close>

definition trim :: "jsstring \<Rightarrow> jsstring" where
  "trim s = rev (dropWhile is_space (rev (dropWhile is_space s)))"

section \<open>Categories\<close>

datatype category = Color | Typography | Spacing | BorderRadius | Shadow | Opacity

fun category_key :: "category \<Rightarrow> jsstring" where
  "category_key Color = ascii ''color''"
| "category_key Typography = ascii ''typography''"
| "category_key Spacing = ascii ''spacing''"
| "category_key BorderRadius = ascii ''borderRadius''"
| "category_key Shadow = ascii ''shadow''"
| "category_key Opacity = ascii ''opacity''"

definition all_categories :: "category list" where
  "all_categories = [Color, Typography, Spacing, BorderRadius, Shadow, Opacity]"

subsection \<open>The plugin: \<open>determineTokenCategory(name, type)\<close>\<close>

text \<open>
  The switch is on the resolved type; under \<open>FLOAT\<close> the lower-cased name is searched
  for key words, under \<open>STRING\<close> both branches return typography, and every other type
  is spacing.
\<close>

definition determineTokenCategory :: "jsstring \<Rightarrow> jsstring \<Rightarrow> category" where
  "determineTokenCategory name ty =
     (let lowerName = toLowerCase name in
      if ty = ascii ''COLOR'' then Color
      else if ty = ascii ''FLOAT'' then
        (if includes_str lowerName (ascii ''spacing'') \<or> includes_str lowerName (ascii ''padding'')
            \<or> includes_str lowerName (ascii ''margin'') then Spacing
         else if includes_str lowerName (ascii ''radius'') \<or> includes_str lowerName (ascii ''corner'')
           then BorderRadius
         else if includes_str lowerName (ascii ''opacity'') \<or> includes_str lowerName (ascii ''alpha'')
           then Opacity
         else Spacing)
      else if ty = ascii ''STRING'' then
        (if includes_str lowerName (ascii ''font'') \<or> includes_str lowerName (ascii ''typography'')
            \<or> includes_str lowerName (ascii ''text'') then Typography
         else Typography)
      else Spacing)"

subsection \<open>The Variables-API adapter: the category in \<open>FigmaSync.createTokenPath\<close>\<close>

text \<open>
  The category is chosen from the variable's name alone, by the first regular
  expression that matches; the resolved type is not looked at. \<open>createTokenPath\<close>
  itself is defined with the adapter below.
\<close>

definition name_category :: "jsstring \<Rightarrow> category" where
  "name_category name =
     (if match_i [ascii ''color'', ascii ''background'', ascii ''foreground'', ascii ''border''] name
        then Color
      else if match_i [ascii ''font'', ascii ''text'', ascii ''typography''] name then Typography
      else if match_i [ascii ''radius'', ascii ''corner''] name then BorderRadius
      else if match_i [ascii ''shadow''] name then Shadow
      else if match_i [ascii ''opacity'', ascii ''alpha''] name then Opacity
      else Spacing)"

subsection \<open>The specification's reading of the name groups\<close>

text \<open>
  The specification's words for the classification by name: the name contains one of the
  group's words, letters compared without regard to case; the first group that has a
  word in the name gives the category, and a name with none is spacing.
\<close>

definition contains_word :: "jsstring \<Rightarrow> jsstring \<Rightarrow> bool" where
  "contains_word name w = sublist w (toLowerCase name)"

definition spec_name_category :: "jsstring \<Rightarrow> category" where
  "spec_name_category name =
     (if contains_word name (ascii ''color'') \<or> contains_word name (ascii ''background'')
         \<or> contains_word name (ascii ''foreground'') \<or> contains_word name (ascii ''border'')
        then Color
      else if contains_word name (ascii ''font'') \<or> contains_word name (ascii ''text'')
         \<or> contains_word name (ascii ''typography'') then Typography
      else if contains_word name (ascii ''radius'') \<or> contains_word name (ascii ''corner'')
        then BorderRadius
      else if contains_word name (ascii ''shadow'') then Shadow
      else if contains_word name (ascii ''opacity'') \<or> contains_word name (ascii ''alpha'')
        then Opacity
      else Spacing)"

section \<open>Name sanitization\<close>

text \<open>The plugin's \<open>sanitizeVariableName\<close>: four leading words are removed, in this order.\<close>

definition sanitizeVariableName :: "jsstring \<Rightarrow> jsstring" where
  "sanitizeVariableName name =
     replace_leading (ascii ''borderradius'')
       (replace_leading (ascii ''typography'')
         (replace_leading (ascii ''spacing'')
           (replace_leading (ascii ''color'')
             (strip_non_alnum (toLowerCase name)))))"

text \<open>\<open>FigmaFileSync.sanitizeName\<close> of the file-content adapter: three leading words.\<close>

definition sanitizeName :: "jsstring \<Rightarrow> jsstring" where
  "sanitizeName name =
     replace_leading (ascii ''typography'')
       (replace_leading (ascii ''spacing'')
         (replace_leading (ascii ''color'')
           (strip_non_alnum (toLowerCase name))))"

definition has_category_prefix :: "jsstring list \<Rightarrow> jsstring \<Rightarrow> bool" where
  "has_category_prefix ws s = list_ex (\<lambda>w. prefix w s) ws"

section \<open>Values\<close>

text \<open>
  A finite JavaScript number is modelled by the rational it denotes; a product of two
  numbers is rounded to the nearest double (see the section on double precision). \<open>NaN\<close> is a value of its own, and the negative zero is not told from
  zero (both print as 0). \<open>prim\<close> are the primitive values, \<open>json\<close> the documents built
  from them (the token stores); an object is the list of its own entries in the order
  \<open>Object.entries\<close> yields them, and it inherits from \<open>Object.prototype\<close>: where the
  code reads a property under a key taken from its input, the model tells an own key
  from an inherited one (\<open>get_member\<close>, \<open>set_keys\<close>).
\<close>

datatype prim = Null | NaN | Bool bool | Num rat | Str jsstring

datatype json = Leaf prim | Object "(jsstring \<times> json) list"

text \<open>
  The value of a Figma variable in one mode (\<open>VariableValue\<close>): a boolean, a number, a
  string, a colour \<open>{r, g, b}\<close> with or without \<open>a\<close>, or an alias
  \<open>{type: 'VARIABLE_ALIAS', id}\<close>.
\<close>

datatype figma_value =
    VBool bool
  | VNum rat
  | VStr jsstring
  | VColor rat rat rat "rat option"
  | VAlias jsstring

fun json_of_value :: "figma_value \<Rightarrow> json" where
  "json_of_value (VBool b) = Leaf (Bool b)"
| "json_of_value (VNum x) = Leaf (Num x)"
| "json_of_value (VStr s) = Leaf (Str s)"
| "json_of_value (VColor r g b a) =
     Object ([(ascii ''r'', Leaf (Num r)), (ascii ''g'', Leaf (Num g)), (ascii ''b'', Leaf (Num b))]
             @ (case a of None \<Rightarrow> [] | Some x \<Rightarrow> [(ascii ''a'', Leaf (Num x))]))"
| "json_of_value (VAlias i) =
     Object [(ascii ''type'', Leaf (Str (ascii ''VARIABLE_ALIAS''))), (ascii ''id'', Leaf (Str i))]"

text \<open>Truthiness, as \<open>!x\<close>, \<open>x || y\<close> and \<open>Boolean(x)\<close> read it.\<close>

fun truthy_prim :: "prim \<Rightarrow> bool" where
  "truthy_prim Null = False"
| "truthy_prim NaN = False"
| "truthy_prim (Bool b) = b"
| "truthy_prim (Num x) = (x \<noteq> 0)"
| "truthy_prim (Str s) = (s \<noteq> [])"

fun truthy :: "json \<Rightarrow> bool" where
  "truthy (Leaf p) = truthy_prim p"
| "truthy (Object fs) = True"

fun truthy_value :: "figma_value \<Rightarrow> bool" where
  "truthy_value (VBool b) = b"
| "truthy_value (VNum x) = (x \<noteq> 0)"
| "truthy_value (VStr s) = (s \<noteq> [])"
| "truthy_value (VColor r g b a) = True"
| "truthy_value (VAlias i) = True"

text \<open>
  What the host does and the source does not spell out is a parameter: how a number
  that is not a small integer prints in base ten and in another base, what
  \<open>parseFloat\<close> reads from a string, and which keys a primitive value answers to (the
  indices and the length of a string, and the members of its prototype).
\<close>

record host =
  number_to_string :: "rat \<Rightarrow> jsstring"
  number_to_radix :: "nat \<Rightarrow> rat \<Rightarrow> jsstring"
  parse_float :: "jsstring \<Rightarrow> prim"
  primitive_has :: "prim \<Rightarrow> jsstring \<Rightarrow> bool"

section \<open>Double precision\<close>

text \<open>
  The product of two doubles is the exact product rounded to the nearest double, a tie
  going to the even significand (IEEE 754, binary64). \<open>binary_exponent x\<close> is the
  exponent \<open>e\<close> with \<open>2^e \<le> |x| < 2^(e+1)\<close>, found from the bit length of the integer
  part of \<open>|x|\<close> or of its inverse. The doubles around \<open>x\<close> are the multiples of
  \<open>2^(e - 52)\<close>, of \<open>2^(-1074)\<close> for the subnormal numbers; a result of size \<open>2^1024\<close>
  or more is an infinity.
\<close>

datatype number = Finite rat | Infinity | Minus_Infinity

definition pow2 :: "int \<Rightarrow> rat" where
  "pow2 k = (if 0 \<le> k then 2 ^ nat k else 1 / 2 ^ nat (- k))"

definition round_half_even :: "rat \<Rightarrow> int" where
  "round_half_even y =
     (let f = \<lfloor>y\<rfloor> in
      if y - of_int f < 1 / 2 then f
      else if 1 / 2 < y - of_int f then f + 1
      else if even f then f else f + 1)"

definition binary_exponent :: "rat \<Rightarrow> int" where
  "binary_exponent x =
     (if 1 \<le> \<bar>x\<bar> then bitlen \<lfloor>\<bar>x\<bar>\<rfloor> - 1 else - bitlen (\<lceil>1 / \<bar>x\<bar>\<rceil> - 1))"

definition to_double :: "rat \<Rightarrow> number" where
  "to_double x =
     (if x = 0 then Finite 0
      else
        (let e = max (binary_exponent x) (- 1022);
             ulp = pow2 (e - 52);
             y = of_int (round_half_even (x / ulp)) * ulp
         in if 2 ^ 1024 \<le> y then Infinity
            else if y \<le> - (2 ^ 1024) then Minus_Infinity
            else Finite y))"

text \<open>\<open>x * y\<close> on two finite numbers.\<close>

definition multiply :: "rat \<Rightarrow> rat \<Rightarrow> number" where
  "multiply x y = to_double (x * y)"

section \<open>Numbers to text\<close>

definition digit_unit :: "nat \<Rightarrow> nat" where
  "digit_unit d = (if d < 10 then 48 + d else 87 + d)"

function radix_digits :: "nat \<Rightarrow> nat \<Rightarrow> jsstring" where
  "radix_digits b n =
     (if b < 2 \<or> n < b then [digit_unit n] else radix_digits b (n div b) @ [digit_unit (n mod b)])"
  by pat_completeness auto
termination
  by (relation "measure (\<lambda>(b, n). n)") auto

declare radix_digits.simps [simp del]

text \<open>\<open>n.toString(b)\<close> for an integer \<open>n\<close>: a sign and the digits.\<close>

definition int_toString :: "nat \<Rightarrow> int \<Rightarrow> jsstring" where
  "int_toString b n = (if n < 0 then 45 # radix_digits b (nat (- n)) else radix_digits b (nat n))"

text \<open>
  A number in a template literal: an integer below \<open>2^53\<close> in size prints as its decimal
  digits, every other number as the host prints it (the shortest digits that read
  back as the same double). In another base, \<open>n.toString(b)\<close>, the digits of a larger
  integer are the host's as well.
\<close>

definition number_toString :: "host \<Rightarrow> rat \<Rightarrow> jsstring" where
  "number_toString h x =
     (if of_int \<lfloor>x\<rfloor> = x \<and> \<bar>x\<bar> < 2 ^ 53 then int_toString 10 \<lfloor>x\<rfloor> else number_to_string h x)"

definition integer_toString :: "host \<Rightarrow> nat \<Rightarrow> int \<Rightarrow> jsstring" where
  "integer_toString h b n =
     (if \<bar>n\<bar> < 2 ^ 53 then int_toString b n else number_to_radix h b (of_int n))"

text \<open>\<open>Math.round\<close>: the nearest integer, a tie going up.\<close>

definition Math_round :: "rat \<Rightarrow> int" where
  "Math_round x = \<lfloor>x + 1 / 2\<rfloor>"

definition padStart :: "nat \<Rightarrow> nat \<Rightarrow> jsstring \<Rightarrow> jsstring" where
  "padStart n c s = replicate (n - length s) c @ s"

section \<open>Colours: \<open>colorToHex\<close>\<close>

text \<open>
  The plugin's \<open>colorToHex\<close> and \<open>FigmaSync.colorToHex\<close> are the same text. A value that
  is not an object gives \<open>null\<close>. An alias is an object without \<open>r\<close>, \<open>g\<close>, \<open>b\<close>: each
  channel is \<open>undefined\<close>, its rounding \<open>NaN\<close>, and the alpha defaults to 1.
  \<open>Math.round\<close> leaves an infinity as it is.
\<close>

text \<open>\<open>Math.round(p).toString(16)\<close> and \<open>`${Math.round(p)}`\<close> of a product \<open>p\<close>.\<close>

definition round_hex :: "host \<Rightarrow> number \<Rightarrow> jsstring" where
  "round_hex h p =
     (case p of
        Finite x \<Rightarrow> integer_toString h 16 (Math_round x)
      | Infinity \<Rightarrow> ascii ''Infinity''
      | Minus_Infinity \<Rightarrow> ascii ''-Infinity'')"

definition round_text :: "host \<Rightarrow> number \<Rightarrow> jsstring" where
  "round_text h p =
     (case p of
        Finite x \<Rightarrow> number_toString h (of_int (Math_round x))
      | Infinity \<Rightarrow> ascii ''Infinity''
      | Minus_Infinity \<Rightarrow> ascii ''-Infinity'')"

definition toHex :: "host \<Rightarrow> rat \<Rightarrow> jsstring" where
  "toHex h n = padStart 2 48 (round_hex h (multiply n 255))"

definition toHex_undefined :: jsstring where
  "toHex_undefined = padStart 2 48 (ascii ''NaN'')"

fun colorToHex :: "host \<Rightarrow> figma_value \<Rightarrow> prim" where
  "colorToHex h (VColor r g b a) =
     (let a1 = (case a of None \<Rightarrow> 1 | Some x \<Rightarrow> x) in
      if a1 < 1 then
        Str (ascii ''rgba('' @ round_text h (multiply r 255) @ ascii '', ''
             @ round_text h (multiply g 255) @ ascii '', ''
             @ round_text h (multiply b 255) @ ascii '', ''
             @ number_toString h a1 @ ascii '')'')
      else Str (35 # toHex h r @ toHex h g @ toHex h b))"
| "colorToHex h (VAlias i) = Str (35 # toHex_undefined @ toHex_undefined @ toHex_undefined)"
| "colorToHex h (VBool b) = Null"
| "colorToHex h (VNum x) = Null"
| "colorToHex h (VStr s) = Null"

subsection \<open>The specification's reading of the colour texts\<close>

text \<open>
  A channel scaled by 255 (the product is a double) and rounded to the nearest integer,
  a tie going up; an integer from 0 to 255 as two hexadecimal digits, the first a zero
  when the number is below 16; and as its decimal digits.
\<close>

definition channel_255 :: "rat \<Rightarrow> nat" where
  "channel_255 x = (case multiply x 255 of Finite p \<Rightarrow> nat \<lfloor>p + 1 / 2\<rfloor> | _ \<Rightarrow> 0)"

definition two_hex_digits :: "nat \<Rightarrow> jsstring" where
  "two_hex_digits n = [digit_unit (n div 16), digit_unit (n mod 16)]"

definition decimal_digits :: "nat \<Rightarrow> jsstring" where
  "decimal_digits n =
     (if n < 10 then [48 + n]
      else if n < 100 then [48 + n div 10, 48 + n mod 10]
      else [48 + n div 100, 48 + (n div 10) mod 10, 48 + n mod 10])"

section \<open>Value conversion\<close>

fun parseFloat :: "host \<Rightarrow> figma_value \<Rightarrow> prim" where
  "parseFloat h (VNum x) = Num x"
| "parseFloat h (VStr s) = parse_float h s"
| "parseFloat h (VBool b) = NaN"
| "parseFloat h (VColor r g b a) = NaN"
| "parseFloat h (VAlias i) = NaN"

text \<open>The plugin's \<open>transformVariableValue(type, value)\<close>: an unknown type passes the value on.\<close>

definition transformVariableValue :: "host \<Rightarrow> jsstring \<Rightarrow> figma_value \<Rightarrow> json" where
  "transformVariableValue h ty v =
     (if ty = ascii ''COLOR'' then Leaf (colorToHex h v)
      else if ty = ascii ''FLOAT'' then Leaf (parseFloat h v)
      else if ty = ascii ''STRING'' then json_of_value v
      else if ty = ascii ''BOOLEAN'' then Leaf (Bool (truthy_value v))
      else json_of_value v)"

text \<open>\<open>FigmaSync.transformValue(type, value)\<close>: an unknown type gives \<open>null\<close>.\<close>

definition transformValue :: "host \<Rightarrow> jsstring \<Rightarrow> figma_value \<Rightarrow> json" where
  "transformValue h ty v =
     (if ty = ascii ''COLOR'' then Leaf (colorToHex h v)
      else if ty = ascii ''FLOAT'' then Leaf (parseFloat h v)
      else if ty = ascii ''STRING'' then json_of_value v
      else if ty = ascii ''BOOLEAN'' then Leaf (Bool (truthy_value v))
      else Leaf Null)"

section \<open>Objects\<close>

text \<open>
  \<open>o[k] = v\<close> on an object: an existing key keeps its place, a new key goes last.
  (JavaScript lists keys that are array indices first; no statement here depends on
  where such a key stands.)
\<close>

fun obj_set :: "jsstring \<Rightarrow> 'a \<Rightarrow> (jsstring \<times> 'a) list \<Rightarrow> (jsstring \<times> 'a) list" where
  "obj_set k v [] = [(k, v)]"
| "obj_set k v ((k', v') # fs) = (if k' = k then (k, v) # fs else (k', v') # obj_set k v fs)"

section \<open>The plugin adapter: \<open>transformVariablesToTokens\<close>\<close>










subsection \<open>The specification's reading of the writes\<close>





section \<open>The Variables-API adapter: \<open>FigmaSync\<close>\<close>

text \<open>
  A \<open>TypeError\<close> is thrown by the code. \<open>Reaches_host\<close> is not an exception: it says that
  a walk along keys has gone into a value of the host (a function or a prototype that a
  plain object inherits, a member of a primitive value), where the model does not
  follow it.
\<close>

datatype exn = TypeError | Reaches_host

text \<open>A loop whose body may throw: the first exception ends it.\<close>

fun fold_exn :: "('s \<Rightarrow> 'a \<Rightarrow> exn + 's) \<Rightarrow> 's \<Rightarrow> 'a list \<Rightarrow> exn + 's" where
  "fold_exn f s [] = Inr s"
| "fold_exn f s (x # xs) = (case f s x of Inl e \<Rightarrow> Inl e | Inr s' \<Rightarrow> fold_exn f s' xs)"

subsection \<open>Keys that a plain object inherits\<close>

text \<open>
  \<open>o[k]\<close> on a plain object finds an own entry, or else a member of
  \<open>Object.prototype\<close>: one of its functions, or under \<open>__proto__\<close> the prototype itself.
  The \<open>name\<close> of such a function is its key, and \<open>Object\<close> for the constructor; the
  prototype has no \<open>name\<close>.
\<close>

definition object_prototype_functions :: "jsstring list" where
  "object_prototype_functions =
     [ascii ''constructor'', ascii ''__defineGetter__'', ascii ''__defineSetter__'',
      ascii ''hasOwnProperty'', ascii ''__lookupGetter__'', ascii ''__lookupSetter__'',
      ascii ''isPrototypeOf'', ascii ''propertyIsEnumerable'', ascii ''toString'',
      ascii ''valueOf'', ascii ''toLocaleString'']"

definition inherited :: "jsstring \<Rightarrow> bool" where
  "inherited k = (k = ascii ''__proto__'' \<or> k \<in> set object_prototype_functions)"

definition function_name :: "jsstring \<Rightarrow> jsstring" where
  "function_name k = (if k = ascii ''constructor'' then ascii ''Object'' else k)"

datatype 'a member = Own 'a | Inherited_function jsstring | Object_prototype | Absent

definition get_member :: "(jsstring \<times> 'a) list \<Rightarrow> jsstring \<Rightarrow> 'a member" where
  "get_member fs k =
     (case map_of fs k of
        Some x \<Rightarrow> Own x
      | None \<Rightarrow>
          if k = ascii ''__proto__'' then Object_prototype
          else if k \<in> set object_prototype_functions then Inherited_function (function_name k)
          else Absent)"

subsection \<open>\<open>setNestedValue(obj, path, value)\<close>\<close>

text \<open>
  The last key is assigned, \<open>current[k] = value\<close>. A class body is strict code, so
  creating a property on a primitive value throws a \<open>TypeError\<close>. Under \<open>__proto__\<close>, when
  that is not an own key, the assignment calls the setter of \<open>Object.prototype\<close>: it does
  nothing on a primitive and nothing with a primitive value, and otherwise replaces the
  prototype of the object.
\<close>

definition assign :: "jsstring \<Rightarrow> json \<Rightarrow> json \<Rightarrow> exn + json" where
  "assign k current v =
     (case current of
        Leaf p \<Rightarrow> if p \<noteq> Null \<and> k = ascii ''__proto__'' then Inr (Leaf p) else Inl TypeError
      | Object fs \<Rightarrow>
          if k = ascii ''__proto__'' \<and> map_of fs k = None
          then (case v of
                  Leaf p \<Rightarrow> if p = Null then Inl Reaches_host else Inr (Object fs)
                | Object gs \<Rightarrow> Inl Reaches_host)
          else Inr (Object (obj_set k v fs)))"

text \<open>
  The loop walks all keys but the last: a missing or falsy child is replaced by a new
  empty object, and the walk goes into the child. A key that the object does not own
  and inherits is truthy: nothing is assigned and the walk goes into the host's value.
  On a primitive value met on the way (a truthy string, number or boolean), a key it
  answers to leads into the host as well, and any other key throws at the assignment
  of the new object. \<open>split\<close> never yields an empty list of keys; with none, the key
  assigned would be \<open>undefined\<close>.
\<close>

fun set_keys :: "host \<Rightarrow> jsstring list \<Rightarrow> json \<Rightarrow> json \<Rightarrow> exn + json" where
  "set_keys h [] current v = assign (ascii ''undefined'') current v"
| "set_keys h [k] current v = assign k current v"
| "set_keys h (k # k' # ks) current v =
     (case current of
        Leaf p \<Rightarrow> if p \<noteq> Null \<and> primitive_has h p k then Inl Reaches_host else Inl TypeError
      | Object fs \<Rightarrow>
          (case map_of fs k of
             None \<Rightarrow>
               if inherited k then Inl Reaches_host
               else (case set_keys h (k' # ks) (Object []) v of
                       Inl e \<Rightarrow> Inl e
                     | Inr child' \<Rightarrow> Inr (Object (obj_set k child' fs)))
           | Some c \<Rightarrow>
               (case set_keys h (k' # ks) (if truthy c then c else Object []) v of
                  Inl e \<Rightarrow> Inl e
                | Inr child' \<Rightarrow> Inr (Object (obj_set k child' fs)))))"

definition setNestedValue :: "host \<Rightarrow> json \<Rightarrow> jsstring \<Rightarrow> json \<Rightarrow> exn + json" where
  "setNestedValue h obj path v = set_keys h (split_str 46 path) obj v"

subsection \<open>\<open>transformToStyleDictionary\<close>\<close>

record collection =
  col_name :: jsstring
  col_modes :: "(jsstring \<times> jsstring) list"

record api_variable =
  av_name :: jsstring
  av_resolvedType :: jsstring
  av_valuesByMode :: "(jsstring \<times> figma_value) list"
  av_collectionId :: jsstring

record figma_data =
  variableCollections :: "(jsstring \<times> collection) list"
  variable_values :: "(jsstring \<times> api_variable) list"

record config =
  accessToken :: jsstring
  fileKey :: jsstring
  cfg_collections :: "jsstring list"
  cfg_modes :: "jsstring list"

text \<open>
  \<open>createTokenPath(variable, collection, mode)\<close>: the category found from the variable's
  name, then the collection, the mode and the variable, lower-cased and hyphenated,
  joined by dots.
\<close>

definition createTokenPath :: "api_variable \<Rightarrow> collection \<Rightarrow> jsstring \<Rightarrow> jsstring" where
  "createTokenPath var col mode_name =
     (let collectionName = hyphenate (toLowerCase (col_name col));
          modeName = hyphenate (toLowerCase mode_name);
          variableName = hyphenate (toLowerCase (av_name var));
          category = name_category (av_name var)
      in category_key category @ [46] @ collectionName @ [46] @ modeName @ [46] @ variableName)"

definition initial_tokens :: json where
  "initial_tokens = Object (map (\<lambda>c. (category_key c, Object [])) all_categories)"

text \<open>
  One mode of one variable, from the mode's name on: the filter, the path, the value,
  the write.
\<close>

definition write_mode ::
  "host \<Rightarrow> config \<Rightarrow> api_variable \<Rightarrow> collection \<Rightarrow> json \<Rightarrow> jsstring \<Rightarrow> figma_value \<Rightarrow> exn + json" where
  "write_mode h cfg var col tokens mode_name x =
     (if cfg_modes cfg \<noteq> [] \<and> mode_name \<notin> set (cfg_modes cfg) then Inr tokens
      else
        (let tokenPath = createTokenPath var col mode_name in
         if tokenPath = [] then Inr tokens
         else
           (let transformedValue = transformValue h (av_resolvedType var) x in
            if transformedValue = Leaf Null then Inr tokens
            else setNestedValue h tokens tokenPath transformedValue)))"

text \<open>
  \<open>collection.modes[modeId]\<close> of a mode the collection does not have is \<open>undefined\<close>, or
  the prototype when the id is \<open>__proto__\<close>, and reading the lower-cased name throws; when
  the id is the key of an inherited function, the mode is that function and its name
  the function's.
\<close>

definition process_api_mode ::
  "host \<Rightarrow> config \<Rightarrow> api_variable \<Rightarrow> collection \<Rightarrow> json \<Rightarrow> jsstring \<times> figma_value \<Rightarrow> exn + json" where
  "process_api_mode h cfg var col tokens entry =
     (case get_member (col_modes col) (fst entry) of
        Absent \<Rightarrow> Inl TypeError
      | Object_prototype \<Rightarrow> Inl TypeError
      | Inherited_function nm \<Rightarrow> write_mode h cfg var col tokens nm (snd entry)
      | Own mode_name \<Rightarrow> write_mode h cfg var col tokens mode_name (snd entry))"

text \<open>
  One variable. \<open>meta.variableCollections[variable.collectionId]\<close> of an id that is not
  there is \<open>undefined\<close>, or the prototype, and reading the name throws. When the id is the
  key of an inherited function, the collection is that function: it has a name and no
  \<open>modes\<close>, so the first mode of the variable throws.
\<close>

definition process_api_variable ::
  "host \<Rightarrow> config \<Rightarrow> (jsstring \<times> collection) list \<Rightarrow> json \<Rightarrow> jsstring \<times> api_variable \<Rightarrow> exn + json" where
  "process_api_variable h cfg meta tokens entry =
     (let var = snd entry in
      case get_member meta (av_collectionId var) of
        Absent \<Rightarrow> Inl TypeError
      | Object_prototype \<Rightarrow> Inl TypeError
      | Inherited_function nm \<Rightarrow>
          if cfg_collections cfg \<noteq> [] \<and> nm \<notin> set (cfg_collections cfg) then Inr tokens
          else if av_valuesByMode var = [] then Inr tokens
          else Inl TypeError
      | Own col \<Rightarrow>
          if cfg_collections cfg \<noteq> [] \<and> col_name col \<notin> set (cfg_collections cfg) then Inr tokens
          else fold_exn (process_api_mode h cfg var col) tokens (av_valuesByMode var))"

definition transformToStyleDictionary :: "host \<Rightarrow> config \<Rightarrow> figma_data \<Rightarrow> exn + json" where
  "transformToStyleDictionary h cfg data =
     fold_exn (process_api_variable h cfg (variableCollections data)) initial_tokens
       (variable_values data)"

subsection \<open>\<open>saveTokens\<close>: the document written\<close>

text \<open>\<open>Object.entries(x)\<close> and the spread \<open>{...x}\<close> of a value that is not \<open>null\<close>.\<close>

fun index_entries :: "nat \<Rightarrow> jsstring \<Rightarrow> (jsstring \<times> json) list" where
  "index_entries i [] = []"
| "index_entries i (c # cs) = (radix_digits 10 i, Leaf (Str [c])) # index_entries (Suc i) cs"

fun entries :: "json \<Rightarrow> (jsstring \<times> json) list" where
  "entries (Object fs) = fs"
| "entries (Leaf (Str s)) = index_entries 0 s"
| "entries (Leaf p) = []"

definition api_document :: "jsstring \<Rightarrow> json \<Rightarrow> json" where
  "api_document now tokens =
     Object (foldl (\<lambda>fs kv. obj_set (fst kv) (snd kv) fs)
               [(ascii ''$metadata'',
                 Object [(ascii ''generatedAt'', Leaf (Str now)),
                         (ascii ''source'', Leaf (Str (ascii ''figma''))),
                         (ascii ''version'', Leaf (Str (ascii ''1.0.0'')))])]
               (entries tokens))"

subsection \<open>The script: constructor and \<open>run\<close>\<close>

text \<open>
  What the script does to the world is the list of its events, in order, and its exit
  status. Only \<open>console.error\<close> is recorded of the console, with the fixed text of its
  first argument. The request answers with the file's data or fails with a message;
  creating the directory and writing the file are taken to succeed. What the script
  does once a walk has gone into a value of the host is a parameter.
\<close>

datatype event =
    Console_error jsstring
  | Http_get jsstring jsstring
  | Mkdir_tokens
  | Write_tokens json

record world =
  http_get :: "jsstring \<Rightarrow> jsstring \<Rightarrow> jsstring + figma_data"
  tokens_dir_exists :: bool
  clock :: jsstring
  inside_host :: "config \<Rightarrow> figma_data \<Rightarrow> event list \<times> nat"

definition comma_list :: "jsstring option \<Rightarrow> jsstring list" where
  "comma_list x =
     (case x of None \<Rightarrow> [] | Some s \<Rightarrow> filter (\<lambda>t. t \<noteq> []) (map trim (split_str 44 s)))"

definition missing_credentials_messages :: "jsstring list" where
  "missing_credentials_messages =
     [[10060] @ ascii '' Missing required environment variables:'',
      ascii ''   FIGMA_ACCESS_TOKEN and FIGMA_FILE_KEY must be set in .env file'']"

text \<open>
  \<open>!this.accessToken || !this.fileKey\<close>: a variable that is not set, or set to the empty
  string, is falsy. \<open>process.exit(1)\<close> ends the process there.
\<close>

definition FigmaSync_constructor :: "(jsstring \<Rightarrow> jsstring option) \<Rightarrow> event list \<times> (nat + config)" where
  "FigmaSync_constructor env =
     (let cols = comma_list (env (ascii ''FIGMA_COLLECTIONS''));
          ms = comma_list (env (ascii ''FIGMA_MODES''))
      in case (env (ascii ''FIGMA_ACCESS_TOKEN''), env (ascii ''FIGMA_FILE_KEY'')) of
           (Some token, Some file) \<Rightarrow>
             if token = [] \<or> file = []
             then (map Console_error missing_credentials_messages, Inl 1)
             else ([], Inr \<lparr>accessToken = token, fileKey = file,
                              cfg_collections = cols, cfg_modes = ms\<rparr>)
         | _ \<Rightarrow> (map Console_error missing_credentials_messages, Inl 1))"

definition variables_url :: "jsstring \<Rightarrow> jsstring" where
  "variables_url file = ascii ''https://api.figma.com/v1/files/'' @ file @ ascii ''/variables/local''"

definition saveTokens :: "world \<Rightarrow> json \<Rightarrow> event list" where
  "saveTokens w tokens =
     (if tokens_dir_exists w then [] else [Mkdir_tokens]) @ [Write_tokens (api_document (clock w) tokens)]"

definition run :: "host \<Rightarrow> config \<Rightarrow> world \<Rightarrow> event list \<times> nat" where
  "run h cfg w =
     (case http_get w (variables_url (fileKey cfg)) (accessToken cfg) of
        Inl err \<Rightarrow>
          ([Http_get (variables_url (fileKey cfg)) (accessToken cfg),
            Console_error ([10060] @ ascii '' Failed to fetch variables from Figma:'')], 1)
      | Inr data \<Rightarrow>
          (case transformToStyleDictionary h cfg data of
             Inl TypeError \<Rightarrow>
               ([Http_get (variables_url (fileKey cfg)) (accessToken cfg),
                 Console_error ([10060] @ ascii '' Sync failed:'')], 1)
           | Inl Reaches_host \<Rightarrow>
               (Http_get (variables_url (fileKey cfg)) (accessToken cfg) # fst (inside_host w cfg data),
                snd (inside_host w cfg data))
           | Inr tokens \<Rightarrow>
               (Http_get (variables_url (fileKey cfg)) (accessToken cfg) # saveTokens w tokens, 0)))"

definition FigmaSync_main :: "host \<Rightarrow> (jsstring \<Rightarrow> jsstring option) \<Rightarrow> world \<Rightarrow> event list \<times> nat" where
  "FigmaSync_main h env w =
     (case FigmaSync_constructor env of
        (evs, Inl code) \<Rightarrow> (evs, code)
      | (evs, Inr cfg) \<Rightarrow> (case run h cfg w of (evs', code) \<Rightarrow> (evs @ evs', code)))"

section \<open>The shape of a token store\<close>












section \<open>The renderer: \<open>PluginSync.generateColors\<close> and \<open>generateSpacing\<close>\<close>

text \<open>
  \<open>x.k\<close> for the fixed keys the renderer reads: of \<open>null\<close> it throws, of another
  primitive it is \<open>undefined\<close> (\<open>None\<close>).
\<close>

fun get_prop :: "json \<Rightarrow> jsstring \<Rightarrow> exn + json option" where
  "get_prop (Object fs) k = Inr (map_of fs k)"
| "get_prop (Leaf Null) k = Inl TypeError"
| "get_prop (Leaf p) k = Inr None"

text \<open>\<open>x || {}\<close>\<close>

definition or_empty :: "json option \<Rightarrow> json" where
  "or_empty x = (case x of None \<Rightarrow> Object [] | Some j \<Rightarrow> if truthy j then j else Object [])"

text \<open>\<open>name.charAt(0).toLowerCase() + name.slice(1)\<close>\<close>

fun toSwiftName :: "jsstring \<Rightarrow> jsstring" where
  "toSwiftName [] = []"
| "toSwiftName (c # cs) = toLowerCase [c] @ cs"

text \<open>A value inside a template literal.\<close>

fun template_string :: "host \<Rightarrow> json option \<Rightarrow> jsstring" where
  "template_string h None = ascii ''undefined''"
| "template_string h (Some (Leaf Null)) = ascii ''null''"
| "template_string h (Some (Leaf NaN)) = ascii ''NaN''"
| "template_string h (Some (Leaf (Bool b))) = (if b then ascii ''true'' else ascii ''false'')"
| "template_string h (Some (Leaf (Num x))) = number_toString h x"
| "template_string h (Some (Leaf (Str s))) = s"
| "template_string h (Some (Object fs)) = ascii ''[object Object]''"

definition colors_header :: "jsstring \<Rightarrow> jsstring" where
  "colors_header timestamp =
     ascii ''//\<newline>//  Colors.swift\<newline>//  Design System\<newline>//\<newline>//  ''
     @ [9888, 65039]
     @ ascii ''  AUTO-GENERATED FILE - DO NOT EDIT MANUALLY\<newline>//  Generated from Figma Variables via Plugin\<newline>//  Last updated: ''
     @ timestamp
     @ ascii ''\<newline>//\<newline>\<newline>import SwiftUI\<newline>\<newline>extension Color {\<newline>''"

definition spacing_header :: "jsstring \<Rightarrow> jsstring" where
  "spacing_header timestamp =
     ascii ''//\<newline>//  Spacing.swift\<newline>//  Design System\<newline>//\<newline>//  ''
     @ [9888, 65039]
     @ ascii ''  AUTO-GENERATED FILE - DO NOT EDIT MANUALLY\<newline>//  Generated from Figma Variables via Plugin\<newline>//  Last updated: ''
     @ timestamp
     @ ascii ''\<newline>//\<newline>\<newline>import SwiftUI\<newline>\<newline>struct Spacing {\<newline>''"

text \<open>
  One colour entry: \<open>token.value.startsWith('#')\<close> throws unless the value is a string.
  The double quote is the code unit 34.
\<close>

definition color_line :: "jsstring \<Rightarrow> jsstring \<times> json \<Rightarrow> exn + jsstring" where
  "color_line output entry =
     (let swiftName = toSwiftName (fst entry) in
      case get_prop (snd entry) (ascii ''value'') of
        Inl e \<Rightarrow> Inl e
      | Inr (Some (Leaf (Str v))) \<Rightarrow>
          (let hexValue = (if prefix [35] v then v else 35 # v) in
           Inr (output @ ascii ''    static let '' @ swiftName @ ascii '' = Color(hex: '' @ [34]
                @ hexValue @ [34] @ ascii '')\<newline>''))
      | Inr other \<Rightarrow> Inl TypeError)"

definition generateColors :: "jsstring \<Rightarrow> json \<Rightarrow> exn + jsstring" where
  "generateColors timestamp tokens =
     (case get_prop tokens (ascii ''color'') of
        Inl e \<Rightarrow> Inl e
      | Inr c \<Rightarrow>
          (case fold_exn color_line (colors_header timestamp) (entries (or_empty c)) of
             Inl e \<Rightarrow> Inl e
           | Inr output \<Rightarrow> Inr (output @ ascii ''}\<newline>'')))"

definition spacing_line :: "host \<Rightarrow> jsstring \<Rightarrow> jsstring \<times> json \<Rightarrow> exn + jsstring" where
  "spacing_line h output entry =
     (let swiftName = toSwiftName (fst entry) in
      case get_prop (snd entry) (ascii ''value'') of
        Inl e \<Rightarrow> Inl e
      | Inr v \<Rightarrow>
          Inr (output @ ascii ''    static let '' @ swiftName @ ascii '': CGFloat = ''
               @ template_string h v @ ascii ''\<newline>''))"

definition generateSpacing :: "host \<Rightarrow> jsstring \<Rightarrow> json \<Rightarrow> exn + jsstring" where
  "generateSpacing h timestamp tokens =
     (case get_prop tokens (ascii ''spacing'') of
        Inl e \<Rightarrow> Inl e
      | Inr c \<Rightarrow>
          (case fold_exn (spacing_line h) (spacing_header timestamp) (entries (or_empty c)) of
             Inl e \<Rightarrow> Inl e
           | Inr output \<Rightarrow> Inr (output @ ascii ''}\<newline>'')))"

text \<open>A line of a text: it stands between two line feeds.\<close>

definition has_line :: "jsstring \<Rightarrow> jsstring \<Rightarrow> bool" where
  "has_line text line = sublist ([10] @ line @ [10]) text"

section \<open>The webhook listener: \<open>POST /figma-webhook\<close>\<close>

text \<open>
  The body of the request is what the JSON middleware parsed: a value of JSON, where an
  array is a value too and a number that is too large reads as an infinity. An object
  is the list of its own entries.
\<close>

datatype jvalue =
    JNull
  | JBool bool
  | JNum number
  | JStr jsstring
  | JArr "jvalue list"
  | JObj "(jsstring \<times> jvalue) list"

text \<open>
  A value inside a template literal. An array prints its elements joined by commas,
  \<open>null\<close> as nothing. An object prints through the \<open>toString\<close> it inherits, unless it has
  an entry of its own under that key: an entry read from JSON is never a function, the
  conversion then tries \<open>valueOf\<close>, which gives no primitive either, and throws a
  \<open>TypeError\<close>.
\<close>

definition number_text :: "host \<Rightarrow> number \<Rightarrow> jsstring" where
  "number_text h n =
     (case n of
        Finite x \<Rightarrow> number_toString h x
      | Infinity \<Rightarrow> ascii ''Infinity''
      | Minus_Infinity \<Rightarrow> ascii ''-Infinity'')"

fun to_text :: "host \<Rightarrow> jvalue \<Rightarrow> exn + jsstring"
  and join_text :: "host \<Rightarrow> jvalue list \<Rightarrow> exn + jsstring" where
  "to_text h JNull = Inr (ascii ''null'')"
| "to_text h (JBool b) = Inr (if b then ascii ''true'' else ascii ''false'')"
| "to_text h (JNum n) = Inr (number_text h n)"
| "to_text h (JStr s) = Inr s"
| "to_text h (JArr xs) = join_text h xs"
| "to_text h (JObj fs) =
     (if ascii ''toString'' \<in> set (map fst fs) then Inl TypeError
      else Inr (ascii ''[object Object]''))"
| "join_text h [] = Inr []"
| "join_text h (x # xs) =
     (case (if x = JNull then Inr [] else to_text h x) of
        Inl e \<Rightarrow> Inl e
      | Inr s \<Rightarrow>
          if xs = [] then Inr s
          else (case join_text h xs of Inl e \<Rightarrow> Inl e | Inr t \<Rightarrow> Inr (s @ [44] @ t)))"

text \<open>A field of the body inside a template literal; a field that is not there is \<open>undefined\<close>.\<close>

definition field_text :: "host \<Rightarrow> (jsstring \<times> jvalue) list \<Rightarrow> jsstring \<Rightarrow> exn + jsstring" where
  "field_text h body k = (case map_of body k of None \<Rightarrow> Inr (ascii ''undefined'') | Some v \<Rightarrow> to_text h v)"

text \<open>
  The line logged before the first command: the repository is converted first, then
  the commit. The arrows are the code units 55357 and 56580.
\<close>

definition processing_line :: "host \<Rightarrow> (jsstring \<times> jvalue) list \<Rightarrow> exn + jsstring" where
  "processing_line h body =
     (case field_text h body (ascii ''repository'') of
        Inl e \<Rightarrow> Inl e
      | Inr repository \<Rightarrow>
          (case field_text h body (ascii ''commit'') of
             Inl e \<Rightarrow> Inl e
           | Inr commit \<Rightarrow>
               Inr ([55357, 56580] @ ascii '' Processing tokens update for '' @ repository
                    @ ascii '' ('' @ commit @ ascii '')'')))"

text \<open>
  The specification's reading of a value that has a text: it is not an object with an
  entry of its own under \<open>toString\<close>, and if it is an array, none of its elements is
  one without a text. A field of the body has a text when it is absent or its value
  has one; a body can be logged when its repository and its commit have a text.
\<close>

fun convertible :: "jvalue \<Rightarrow> bool" where
  "convertible (JObj fs) = (ascii ''toString'' \<notin> set (map fst fs))"
| "convertible (JArr xs) = list_all convertible xs"
| "convertible v = True"

definition convertible_field :: "(jsstring \<times> jvalue) list \<Rightarrow> jsstring \<Rightarrow> bool" where
  "convertible_field body k = (case map_of body k of None \<Rightarrow> True | Some v \<Rightarrow> convertible v)"

definition loggable :: "(jsstring \<times> jvalue) list \<Rightarrow> bool" where
  "loggable body = (convertible_field body (ascii ''repository'') \<and> convertible_field body (ascii ''commit''))"

text \<open>The message of the \<open>TypeError\<close> of a failed conversion, as Node words it.\<close>

definition cannot_convert :: jsstring where
  "cannot_convert = ascii ''Cannot convert object to primitive value''"

text \<open>
  \<open>executeCommand\<close> resolves with the command's output or rejects with its error; the
  shell is a parameter that answers each command with \<open>Inr\<close> output or \<open>Inl\<close> the
  error's message. The two awaited commands form the sequence: the second starts when
  the first has succeeded. The result lists the commands that were started, in order.
\<close>

definition pull_command :: jsstring where
  "pull_command = ascii ''git pull origin main''"

definition regenerate_command :: jsstring where
  "regenerate_command = ascii ''cd scripts && npm run generate-swift''"

definition pull_then_regenerate :: "(jsstring \<Rightarrow> jsstring + jsstring) \<Rightarrow> jsstring list \<times> (jsstring + unit)" where
  "pull_then_regenerate exec =
     (case exec pull_command of
        Inl msg \<Rightarrow> ([pull_command], Inl msg)
      | Inr out \<Rightarrow>
          (case exec regenerate_command of
             Inl msg \<Rightarrow> ([pull_command, regenerate_command], Inl msg)
           | Inr out' \<Rightarrow> ([pull_command, regenerate_command], Inr ())))"

text \<open>
  The handler, for a body that is an object, given by its entries (an array has none
  of the fields read). The answer is the status and the object handed to \<open>res.json\<close>; a
  property whose value is \<open>undefined\<close> is left out of it. Every exception inside the
  \<open>try\<close> is answered by the \<open>catch\<close>.
\<close>

definition optional_field :: "(jsstring \<times> jvalue) list \<Rightarrow> jsstring \<Rightarrow> (jsstring \<times> jvalue) list" where
  "optional_field body k = (case map_of body k of None \<Rightarrow> [] | Some v \<Rightarrow> [(k, v)])"

record response =
  status :: nat
  payload :: jvalue

definition failure_response :: "jsstring \<Rightarrow> response" where
  "failure_response msg =
     \<lparr>status = 500,
      payload = JObj [(ascii ''success'', JBool False), (ascii ''error'', JStr msg)]\<rparr>"

definition figma_webhook ::
  "host \<Rightarrow> (jsstring \<Rightarrow> jsstring + jsstring) \<Rightarrow> jsstring \<Rightarrow> (jsstring \<times> jvalue) list
   \<Rightarrow> jsstring list \<times> response" where
  "figma_webhook h exec now body =
     (if map_of body (ascii ''event'') \<noteq> Some (JStr (ascii ''tokens_updated''))
      then ([], \<lparr>status = 200, payload = JObj [(ascii ''message'', JStr (ascii ''Event ignored''))]\<rparr>)
      else
        (case processing_line h body of
           Inl e \<Rightarrow> ([], failure_response cannot_convert)
         | Inr line \<Rightarrow>
             (case pull_then_regenerate exec of
                (cmds, Inr u) \<Rightarrow>
                  (cmds, \<lparr>status = 200,
                          payload = JObj ([(ascii ''success'', JBool True),
                                           (ascii ''message'', JStr (ascii ''Tokens updated successfully''))]
                                          @ optional_field body (ascii ''repository'')
                                          @ optional_field body (ascii ''commit'')
                                          @ [(ascii ''timestamp'', JStr now)])\<rparr>)
              | (cmds, Inl msg) \<Rightarrow> (cmds, failure_response msg))))"

section \<open>The file-content adapters\<close>



record fill =
  fill_type :: jsstring
  fill_color :: "(rat \<times> rat \<times> rat) option"

datatype node = Node (node_name: "jsstring option") (node_fills: "fill list option")
  (node_children: "node list option")











subsection \<open>\<open>FigmaFileSync.extractTokensFromFile\<close>\<close>





subsection \<open>\<open>EnhancedFigmaSync.extractTokensFromFile\<close>\<close>













section \<open>The scenarios of the specification\<close>

text \<open>The end-to-end store: one colour \<open>primary\<close> and one spacing \<open>small\<close>.\<close>

definition scenario_store :: json where
  "scenario_store =
     Object [(ascii ''color'',
              Object [(ascii ''primary'', Object [(ascii ''value'', Leaf (Str (ascii ''#007AFF'')))])]),
             (ascii ''spacing'',
              Object [(ascii ''small'', Object [(ascii ''value'', Leaf (Num 8))])])]"











text \<open>
  The two lines the scenario expects: \<open>primary\<close> bound to the colour constructor on the
  text "#007AFF" (the double quote is the code unit 34), and \<open>small\<close> bound to 8.
\<close>

definition primary_line :: jsstring where
  "primary_line = ascii ''    static let primary = Color(hex: '' @ [34] @ ascii ''#007AFF'' @ [34] @ ascii '')''"

definition small_line :: jsstring where
  "small_line = ascii ''    static let small: CGFloat = 8''"

chapter \<open>Properties\<close>

section \<open>Evaluation\<close>

lemma floor_rat_numeral_div: "\<lfloor>numeral a / numeral b :: rat\<rfloor> = numeral a div numeral b"
  by (metis floor_divide_of_int_eq of_int_numeral)

lemma floor_rat_one_div: "\<lfloor>1 / numeral b :: rat\<rfloor> = 1 div numeral b"
  by (metis floor_divide_of_int_eq of_int_numeral of_int_1)

lemma ceiling_rat_numeral_div: "\<lceil>numeral a / numeral b :: rat\<rceil> = - (- numeral a div numeral b)"
  by (metis ceiling_divide_eq_div of_int_numeral)

lemmas string_eval =
  ascii_def toLowerCase_def toLowerCase_unit_def canonicalize_def is_a_z_0_9_def
  strip_non_alnum_def replace_leading_def is_space_def

lemmas number_eval =
  floor_rat_numeral_div floor_rat_one_div ceiling_rat_numeral_div Let_def
  to_double_def multiply_def binary_exponent_def pow2_def round_half_even_def compute_bitlen
  toHex_def round_hex_def round_text_def padStart_def int_toString_def integer_toString_def
  Math_round_def digit_unit_def number_toString_def toHex_undefined_def radix_digits.simps

section \<open>Words and regular expressions\<close>

lemma unit_match:
  "97 \<le> p \<Longrightarrow> p \<le> 122 \<Longrightarrow> canonicalize p = canonicalize c \<longleftrightarrow> toLowerCase_unit c = p"
  by (auto simp: canonicalize_def toLowerCase_unit_def split: if_splits)

lemma match_here_prefix:
  "list_all (\<lambda>c. 97 \<le> c \<and> c \<le> 122) p \<Longrightarrow> match_here p s \<longleftrightarrow> prefix p (toLowerCase s)"
proof (induction p s rule: match_here.induct)
  case (1 s)
  show ?case by simp
next
  case (2 p ps)
  show ?case by (simp add: toLowerCase_def)
next
  case (3 p ps c cs)
  then show ?case
    by (auto simp: toLowerCase_def unit_match)
qed

lemma includes_str_sublist: "includes_str s p \<longleftrightarrow> sublist p s"
  by (induction s) (auto simp: sublist_Cons_right)

lemma match_i_contains:
  "list_all (list_all (\<lambda>c. 97 \<le> c \<and> c \<le> 122)) alts \<Longrightarrow>
   match_i alts s \<longleftrightarrow> list_ex (\<lambda>a. sublist a (toLowerCase s)) alts"
proof (induction s)
  case Nil
  then show ?case
    by (auto simp: list_ex_iff list_all_iff toLowerCase_def match_here_prefix)
next
  case (Cons c cs)
  have "list_ex (\<lambda>a. match_here a (c # cs)) alts
        \<longleftrightarrow> list_ex (\<lambda>a. prefix a (toLowerCase (c # cs))) alts"
    using Cons.prems by (auto simp: list_ex_iff list_all_iff match_here_prefix)
  with Cons show ?case
    by (auto simp: list_ex_iff toLowerCase_def sublist_Cons_right)
qed

lemma name_category_spec: "name_category name = spec_name_category name"
  by (simp add: name_category_def spec_name_category_def contains_word_def match_i_contains ascii_def)

lemma includes_contains: "includes_str (toLowerCase name) w = contains_word name w"
  by (simp add: includes_str_sublist contains_word_def)

section \<open>C1: classification\<close>

text \<open>
  C1. As stated, the claim joins two classifiers that differ. In the plugin adapter the
  category is a function of the name and the resolved type: a FLOAT variable named
  corner-radius-lg is borderRadius, one named space-lg is spacing, and a COLOR variable
  is color whatever its name. In the Variables-API adapter the category is a function
  of the name alone: the name is matched, letters without regard to case, against the
  groups color|background|foreground|border, font|text|typography, radius|corner,
  shadow, opacity|alpha in this order, and is spacing when none matches; there too
  corner-radius-lg is borderRadius and space-lg is spacing.
\<close>

theorem classification_by_adapter:
  "determineTokenCategory (ascii ''corner-radius-lg'') (ascii ''FLOAT'') = BorderRadius
   \<and> determineTokenCategory (ascii ''space-lg'') (ascii ''FLOAT'') = Spacing
   \<and> (\<forall>name. determineTokenCategory name (ascii ''COLOR'') = Color)
   \<and> name_category (ascii ''corner-radius-lg'') = BorderRadius
   \<and> name_category (ascii ''space-lg'') = Spacing
   \<and> (\<forall>name. name_category name = spec_name_category name)"
proof -
  have "determineTokenCategory (ascii ''corner-radius-lg'') (ascii ''FLOAT'') = BorderRadius"
    by (simp add: determineTokenCategory_def string_eval)
  moreover have "determineTokenCategory (ascii ''space-lg'') (ascii ''FLOAT'') = Spacing"
    by (simp add: determineTokenCategory_def string_eval)
  moreover have "\<forall>name. determineTokenCategory name (ascii ''COLOR'') = Color"
    by (simp add: determineTokenCategory_def)
  moreover have "name_category (ascii ''corner-radius-lg'') = BorderRadius"
    by (simp add: name_category_def string_eval)
  moreover have "name_category (ascii ''space-lg'') = Spacing"
    by (simp add: name_category_def string_eval)
  moreover have "\<forall>name. name_category name = spec_name_category name"
    by (simp add: name_category_spec)
  ultimately show ?thesis by blast
qed

text \<open>
  The claim as stated fails on each adapter. In the Variables-API adapter a COLOR
  variable named space-lg is filed under spacing; in the plugin adapter a FLOAT variable
  named shadow-sm is spacing, though its name is in the shadow group.
\<close>

theorem classification_counterexample:
  "createTokenPath
     \<lparr>av_name = ascii ''space-lg'', av_resolvedType = ascii ''COLOR'',
      av_valuesByMode = [(ascii ''1:0'', VColor 0 0 0 (Some 1))], av_collectionId = ascii ''c1''\<rparr>
     \<lparr>col_name = ascii ''Brand'', col_modes = [(ascii ''1:0'', ascii ''Light'')]\<rparr>
     (ascii ''Light'')
     = ascii ''spacing.brand.light.space-lg''
   \<and> determineTokenCategory (ascii ''shadow-sm'') (ascii ''FLOAT'') = Spacing
   \<and> spec_name_category (ascii ''shadow-sm'') = Shadow"
proof -
  have "spec_name_category (ascii ''shadow-sm'') = Shadow"
    unfolding name_category_spec [symmetric]
    by (simp add: name_category_def string_eval)
  then show ?thesis
    by (simp add: createTokenPath_def name_category_def determineTokenCategory_def string_eval)
qed

section \<open>C2: sanitization\<close>

lemma lower_fixes_alnum: "is_a_z_0_9 c \<Longrightarrow> toLowerCase_unit c = c"
  by (auto simp: is_a_z_0_9_def toLowerCase_unit_def)

lemma strip_non_alnum_all: "list_all is_a_z_0_9 (strip_non_alnum s)"
  by (simp add: strip_non_alnum_def list_all_iff)

lemma normal_form_fixed:
  "list_all is_a_z_0_9 t \<Longrightarrow> strip_non_alnum (toLowerCase t) = t"
  by (induction t) (auto simp: strip_non_alnum_def toLowerCase_def lower_fixes_alnum)

lemma replace_leading_all:
  "list_all P s \<Longrightarrow> list_all P (replace_leading w s)"
  by (auto simp: replace_leading_def list_all_iff dest: in_set_dropD)

lemma replace_leading_length: "length (replace_leading w s) \<le> length s"
  by (simp add: replace_leading_def)

lemma replace_leading_shorter:
  "prefix w s \<Longrightarrow> w \<noteq> [] \<Longrightarrow> length (replace_leading w s) < length s"
  by (auto simp: replace_leading_def prefix_def)

lemma replace_leading_id: "\<not> prefix w s \<Longrightarrow> replace_leading w s = s"
  by (simp add: replace_leading_def)

lemma sanitizeVariableName_all: "list_all is_a_z_0_9 (sanitizeVariableName s)"
  unfolding sanitizeVariableName_def
  by (intro replace_leading_all strip_non_alnum_all)

lemma sanitizeName_all: "list_all is_a_z_0_9 (sanitizeName s)"
  unfolding sanitizeName_def
  by (intro replace_leading_all strip_non_alnum_all)

lemma chain_length:
  "length (foldl (\<lambda>s w. replace_leading w s) t ws) \<le> length t"
proof (induction ws arbitrary: t)
  case Nil
  show ?case by simp
next
  case (Cons w ws)
  have "length (foldl (\<lambda>s w. replace_leading w s) (replace_leading w t) ws)
          \<le> length (replace_leading w t)"
    by (rule Cons.IH)
  also have "\<dots> \<le> length t" by (rule replace_leading_length)
  finally show ?case by simp
qed

lemma chain_fixed_iff:
  "[] \<notin> set ws \<Longrightarrow>
   foldl (\<lambda>s w. replace_leading w s) t ws = t \<longleftrightarrow> \<not> list_ex (\<lambda>w. prefix w t) ws"
proof (induction ws)
  case Nil
  show ?case by simp
next
  case (Cons w ws)
  show ?case
  proof (cases "prefix w t")
    case True
    from Cons.prems have "w \<noteq> []" by auto
    with True have "length (replace_leading w t) < length t"
      by (rule replace_leading_shorter)
    moreover have "length (foldl (\<lambda>s w. replace_leading w s) (replace_leading w t) ws)
          \<le> length (replace_leading w t)"
      by (rule chain_length)
    ultimately have "length (foldl (\<lambda>s w. replace_leading w s) t (w # ws)) < length t"
      by simp
    then have "foldl (\<lambda>s w. replace_leading w s) t (w # ws) \<noteq> t"
      by (metis less_irrefl)
    with True show ?thesis by simp
  next
    case False
    then have "replace_leading w t = t" by (rule replace_leading_id)
    with False Cons show ?thesis by simp
  qed
qed

text \<open>
  C2. Sanitization is not idempotent on every input: each of the leading words is
  removed once, in a fixed order, so a second pass can remove a word that the first
  pass uncovered or left. A second pass changes nothing exactly when the sanitized name
  does not itself begin with one of the words (the plugin's four, or the file-content
  adapter's three).
\<close>

theorem sanitize_idempotent_iff:
  "(sanitizeVariableName (sanitizeVariableName s) = sanitizeVariableName s
      \<longleftrightarrow> \<not> has_category_prefix
               [ascii ''color'', ascii ''spacing'', ascii ''typography'', ascii ''borderradius'']
               (sanitizeVariableName s))
   \<and> (sanitizeName (sanitizeName s) = sanitizeName s
      \<longleftrightarrow> \<not> has_category_prefix [ascii ''color'', ascii ''spacing'', ascii ''typography'']
               (sanitizeName s))"
proof
  let ?t = "sanitizeVariableName s"
  let ?ws = "[ascii ''color'', ascii ''spacing'', ascii ''typography'', ascii ''borderradius'']"
  have norm: "strip_non_alnum (toLowerCase ?t) = ?t"
    by (rule normal_form_fixed [OF sanitizeVariableName_all])
  have again: "sanitizeVariableName ?t = foldl (\<lambda>s w. replace_leading w s) ?t ?ws"
    by (subst sanitizeVariableName_def) (simp only: norm foldl.simps)
  have "[] \<notin> set ?ws"
    by (simp add: ascii_def)
  then have "foldl (\<lambda>s w. replace_leading w s) ?t ?ws = ?t \<longleftrightarrow> \<not> list_ex (\<lambda>w. prefix w ?t) ?ws"
    by (rule chain_fixed_iff)
  then show "sanitizeVariableName ?t = ?t \<longleftrightarrow> \<not> has_category_prefix ?ws ?t"
    by (simp only: again has_category_prefix_def)
next
  let ?t = "sanitizeName s"
  let ?ws = "[ascii ''color'', ascii ''spacing'', ascii ''typography'']"
  have norm: "strip_non_alnum (toLowerCase ?t) = ?t"
    by (rule normal_form_fixed [OF sanitizeName_all])
  have again: "sanitizeName ?t = foldl (\<lambda>s w. replace_leading w s) ?t ?ws"
    by (subst sanitizeName_def) (simp only: norm foldl.simps)
  have "[] \<notin> set ?ws"
    by (simp add: ascii_def)
  then have "foldl (\<lambda>s w. replace_leading w s) ?t ?ws = ?t \<longleftrightarrow> \<not> list_ex (\<lambda>w. prefix w ?t) ?ws"
    by (rule chain_fixed_iff)
  then show "sanitizeName ?t = ?t \<longleftrightarrow> \<not> has_category_prefix ?ws ?t"
    by (simp only: again has_category_prefix_def)
qed

text \<open>
  The theorem at the name Spacing/Large: it sanitizes to large, which begins with none
  of the words, and a second pass leaves it.
\<close>

theorem sanitize_idempotent_witness:
  "sanitizeVariableName (ascii ''Spacing/Large'') = ascii ''large''
   \<and> sanitizeVariableName (sanitizeVariableName (ascii ''Spacing/Large''))
       = sanitizeVariableName (ascii ''Spacing/Large'')"
proof -
  have v: "sanitizeVariableName (ascii ''Spacing/Large'') = ascii ''large''"
    by (simp add: sanitizeVariableName_def string_eval)
  have "\<not> has_category_prefix
           [ascii ''color'', ascii ''spacing'', ascii ''typography'', ascii ''borderradius'']
           (ascii ''large'')"
    by (simp add: has_category_prefix_def ascii_def)
  with v show ?thesis
    using sanitize_idempotent_iff [of "ascii ''Spacing/Large''"] by simp
qed

text \<open>
  The claim as stated fails at the name Color/Color-Primary: the first pass gives
  colorprimary, the second primary.
\<close>

theorem sanitize_not_idempotent:
  "sanitizeVariableName (ascii ''Color/Color-Primary'') = ascii ''colorprimary''
   \<and> sanitizeVariableName (sanitizeVariableName (ascii ''Color/Color-Primary'')) = ascii ''primary''
   \<and> sanitizeVariableName (sanitizeVariableName (ascii ''Color/Color-Primary''))
       \<noteq> sanitizeVariableName (ascii ''Color/Color-Primary'')"
  by (simp add: sanitizeVariableName_def string_eval)

section \<open>Rounding to a double\<close>

lemma round_half_even_cases: "round_half_even y = \<lfloor>y\<rfloor> \<or> (round_half_even y = \<lfloor>y\<rfloor> + 1 \<and> 1 / 2 \<le> y - of_int \<lfloor>y\<rfloor>)"
  by (auto simp: round_half_even_def Let_def)

lemma round_half_even_lower: "\<lfloor>y\<rfloor> \<le> round_half_even y"
  using round_half_even_cases [of y] by auto

lemma round_half_even_upper: "round_half_even y \<le> \<lceil>y\<rceil>"
proof -
  consider "round_half_even y = \<lfloor>y\<rfloor>" | "round_half_even y = \<lfloor>y\<rfloor> + 1" "1 / 2 \<le> y - of_int \<lfloor>y\<rfloor>"
    using round_half_even_cases [of y] by blast
  then show ?thesis
  proof cases
    case 1
    then show ?thesis by simp
  next
    case 2
    then have "of_int \<lfloor>y\<rfloor> < y" by linarith
    then have "\<lfloor>y\<rfloor> < \<lceil>y\<rceil>" by (simp add: less_ceiling_iff)
    with 2 show ?thesis by simp
  qed
qed

lemma round_half_even_error: "\<bar>of_int (round_half_even y) - y\<bar> \<le> 1 / 2"
proof -
  have "of_int \<lfloor>y\<rfloor> \<le> y" "y < of_int \<lfloor>y\<rfloor> + 1" by linarith+
  then show ?thesis
    by (auto simp: round_half_even_def Let_def abs_le_iff)
qed

lemma binary_exponent_small:
  assumes "0 < x" "x \<le> 255"
  shows "binary_exponent x \<le> 7"
proof (cases "1 \<le> \<bar>x\<bar>")
  case True
  have "\<lfloor>\<bar>x\<bar>\<rfloor> \<le> 255" using assms by (simp add: floor_le_iff)
  then have "\<lfloor>\<bar>x\<bar>\<rfloor> < 2 ^ nat 8" by simp
  then have "bitlen \<lfloor>\<bar>x\<bar>\<rfloor> \<le> 8"
    by (simp only: bitlen_le_iff_power) simp
  with True show ?thesis by (simp add: binary_exponent_def)
next
  case False
  have "0 \<le> bitlen (\<lceil>1 / \<bar>x\<bar>\<rceil> - 1)" by (rule bitlen_nonneg)
  with False show ?thesis by (simp add: binary_exponent_def)
qed

lemma to_double_range:
  assumes "0 \<le> x" "x \<le> 255"
  shows "\<exists>p. to_double x = Finite p \<and> 0 \<le> p \<and> p \<le> 255 \<and> \<bar>p - x\<bar> \<le> 1 / 2 ^ 46"
proof (cases "x = 0")
  case True
  then show ?thesis by (simp add: to_double_def)
next
  case False
  with assms have pos: "0 < x" by simp
  define e where "e = max (binary_exponent x) (- 1022)"
  define n where "n = nat (52 - e)"
  define k where "k = round_half_even (x * 2 ^ n)"
  have e: "e \<le> 7" "- 1022 \<le> e"
    using binary_exponent_small [OF pos assms(2)] by (simp_all add: e_def)
  then have n: "45 \<le> n" by (simp add: n_def)
  have ulp: "pow2 (e - 52) = 1 / 2 ^ n"
    using e by (simp add: pow2_def n_def)
  have y: "of_int (round_half_even (x / pow2 (e - 52))) * pow2 (e - 52) = of_int k / 2 ^ n"
    by (simp add: ulp k_def)
  have "0 \<le> x * 2 ^ n" using assms by simp
  then have "0 \<le> \<lfloor>x * 2 ^ n\<rfloor>" by simp
  then have k0: "0 \<le> k"
    unfolding k_def using round_half_even_lower [of "x * 2 ^ n"] by linarith
  have "x * 2 ^ n \<le> of_int (255 * 2 ^ n)" using assms by simp
  then have "\<lceil>x * 2 ^ n\<rceil> \<le> 255 * 2 ^ n" by (simp only: ceiling_le_iff)
  then have k1: "k \<le> 255 * 2 ^ n"
    unfolding k_def using round_half_even_upper [of "x * 2 ^ n"] by linarith
  have lo: "0 \<le> (of_int k :: rat) / 2 ^ n" using k0 by simp
  have "(of_int k :: rat) \<le> of_int (255 * 2 ^ n)" using k1 by (simp only: of_int_le_iff)
  then have hi: "(of_int k :: rat) / 2 ^ n \<le> 255"
    by (simp add: divide_le_eq)
  have "\<bar>(of_int k :: rat) - x * 2 ^ n\<bar> \<le> 1 / 2"
    unfolding k_def by (rule round_half_even_error)
  then have "\<bar>(of_int k :: rat) - x * 2 ^ n\<bar> / 2 ^ n \<le> (1 / 2) / 2 ^ n"
    by (rule divide_right_mono) simp
  moreover have "\<bar>(of_int k :: rat) - x * 2 ^ n\<bar> / 2 ^ n = \<bar>of_int k / 2 ^ n - x\<bar>"
  proof -
    have "\<bar>(of_int k :: rat) - x * 2 ^ n\<bar> / 2 ^ n = \<bar>(of_int k - x * 2 ^ n) / 2 ^ n\<bar>"
      by simp
    also have "(of_int k - x * 2 ^ n) / 2 ^ n = of_int k / 2 ^ n - x"
      by (simp add: diff_divide_distrib)
    finally show ?thesis .
  qed
  moreover have "(1 / 2 :: rat) / 2 ^ n \<le> 1 / 2 ^ 46"
  proof -
    have "(2 :: rat) ^ 46 \<le> 2 ^ Suc n" using n by (intro power_increasing) simp_all
    then have "(1 :: rat) / 2 ^ Suc n \<le> 1 / 2 ^ 46"
      by (intro divide_left_mono) simp_all
    then show ?thesis by simp
  qed
  ultimately have err: "\<bar>(of_int k :: rat) / 2 ^ n - x\<bar> \<le> 1 / 2 ^ 46" by linarith
  have big: "(255 :: rat) < 2 ^ 1024" by simp
  have "to_double x = Finite (of_int k / 2 ^ n)"
    using False lo hi big by (simp add: to_double_def Let_def e_def [symmetric] y)
  with lo hi err show ?thesis by blast
qed

section \<open>C3 and C4: colours\<close>

lemma radix_digits_small: "n < b \<Longrightarrow> radix_digits b n = [digit_unit n]"
  by (simp add: radix_digits.simps)

lemma hex_two_digits:
  assumes "n < 256"
  shows "padStart 2 48 (radix_digits 16 n) = two_hex_digits n"
proof (cases "n < 16")
  case True
  then show ?thesis
    by (simp add: radix_digits_small padStart_def two_hex_digits_def digit_unit_def numeral_2_eq_2)
next
  case False
  from assms have "n div 16 < 16" by simp
  then have "radix_digits 16 (n div 16) = [digit_unit (n div 16)]"
    by (rule radix_digits_small)
  with False have "radix_digits 16 n = [digit_unit (n div 16), digit_unit (n mod 16)]"
    by (subst radix_digits.simps) simp
  then show ?thesis
    by (simp add: padStart_def two_hex_digits_def)
qed

lemma decimal_small:
  assumes "n < 256"
  shows "radix_digits 10 n = decimal_digits n"
proof -
  consider "n < 10" | "10 \<le> n" "n < 100" | "100 \<le> n"
    by linarith
  then show ?thesis
  proof cases
    case 1
    then show ?thesis
      by (simp add: radix_digits_small decimal_digits_def digit_unit_def)
  next
    case 2
    then have "n div 10 < 10" by simp
    then have "radix_digits 10 (n div 10) = [digit_unit (n div 10)]"
      by (rule radix_digits_small)
    with 2 have "radix_digits 10 n = [digit_unit (n div 10), digit_unit (n mod 10)]"
      by (subst radix_digits.simps) simp
    with 2 show ?thesis
      by (simp add: decimal_digits_def digit_unit_def)
  next
    case 3
    with assms have a: "n div 10 div 10 < 10" "10 \<le> n div 10" by simp_all
    have "radix_digits 10 (n div 10 div 10) = [digit_unit (n div 10 div 10)]"
      using a(1) by (rule radix_digits_small)
    with a have "radix_digits 10 (n div 10) = [digit_unit (n div 10 div 10), digit_unit (n div 10 mod 10)]"
      by (subst radix_digits.simps) simp
    with 3 have "radix_digits 10 n
        = [digit_unit (n div 10 div 10), digit_unit (n div 10 mod 10), digit_unit (n mod 10)]"
      by (subst radix_digits.simps) simp
    moreover have "n div 10 div 10 = n div 100"
      by (simp add: div_mult2_eq [symmetric])
    moreover have "n div 100 < 10"
      using assms by simp
    ultimately show ?thesis using 3
      by (simp add: decimal_digits_def digit_unit_def)
  qed
qed

text \<open>
  The product of a channel between 0 and 1 with 255 is a double between 0 and 255, at
  most \<open>2^(-46)\<close> away from the exact product, and its rounding is an integer from 0 to
  255.
\<close>

lemma channel_product:
  assumes "0 \<le> x" "x \<le> 1"
  shows "\<exists>p. multiply x 255 = Finite p \<and> \<bar>p - x * 255\<bar> \<le> 1 / 2 ^ 46
           \<and> 0 \<le> Math_round p \<and> Math_round p \<le> 255 \<and> int (channel_255 x) = Math_round p"
proof -
  have "0 \<le> x * 255" "x * 255 \<le> 255" using assms by simp_all
  then obtain p where p: "to_double (x * 255) = Finite p" "0 \<le> p" "p \<le> 255"
      "\<bar>p - x * 255\<bar> \<le> 1 / 2 ^ 46"
    using to_double_range by blast
  have "0 \<le> p + 1 / 2" using p(2) by simp
  then have lo: "0 \<le> Math_round p"
    unfolding Math_round_def by simp
  have "p + 1 / 2 < 256" using p(3) by simp
  then have "\<lfloor>p + 1 / 2\<rfloor> < 256"
    by (simp add: floor_less_iff)
  then have hi: "Math_round p \<le> 255"
    unfolding Math_round_def by simp
  have "int (channel_255 x) = Math_round p"
    using lo by (simp add: channel_255_def multiply_def p(1) Math_round_def)
  with p lo hi show ?thesis
    by (auto simp: multiply_def)
qed

lemma channel_255_range:
  assumes "0 \<le> x" "x \<le> 1"
  shows "channel_255 x \<le> 255"
  using channel_product [OF assms] by auto

lemma toHex_channel:
  assumes "0 \<le> x" "x \<le> 1"
  shows "toHex h x = two_hex_digits (channel_255 x)"
proof -
  obtain p where p: "multiply x 255 = Finite p" "0 \<le> Math_round p" "Math_round p \<le> 255"
      "int (channel_255 x) = Math_round p"
    using channel_product [OF assms] by blast
  have n: "channel_255 x < 256" "nat (Math_round p) = channel_255 x"
    using p by linarith+
  have "\<bar>Math_round p\<bar> < 2 ^ 53" using p(2,3) by simp
  then have "round_hex h (multiply x 255) = radix_digits 16 (channel_255 x)"
    using p(2) n(2) by (simp add: round_hex_def p(1) integer_toString_def int_toString_def)
  then show ?thesis
    using hex_two_digits [OF n(1)] by (simp add: toHex_def)
qed

lemma channel_text:
  assumes "0 \<le> x" "x \<le> 1"
  shows "round_text h (multiply x 255) = decimal_digits (channel_255 x)"
proof -
  obtain p where p: "multiply x 255 = Finite p" "0 \<le> Math_round p" "Math_round p \<le> 255"
      "int (channel_255 x) = Math_round p"
    using channel_product [OF assms] by blast
  have n: "channel_255 x < 256" "nat (Math_round p) = channel_255 x"
    using p by linarith+
  have "\<bar>rat_of_int (Math_round p)\<bar> \<le> 255"
    using p(2,3) by simp
  then have "\<bar>rat_of_int (Math_round p)\<bar> < 2 ^ 53"
    by simp
  then have "round_text h (multiply x 255) = int_toString 10 (Math_round p)"
    by (simp add: round_text_def p(1) number_toString_def)
  also have "\<dots> = radix_digits 10 (channel_255 x)"
    using p(2) n(2) by (simp add: int_toString_def)
  also have "\<dots> = decimal_digits (channel_255 x)"
    using n(1) by (rule decimal_small)
  finally show ?thesis .
qed

text \<open>
  The double 0.00196078431372549 (the rational below): the exact product with 255 is
  just under one half, the double product is one half, and the channel rounds to 1.
\<close>

lemma boundary_product:
  "multiply (282578800148737 / 144115188075855872) 255 = Finite (1 / 2)"
  by (simp add: number_eval)

lemma black_and_white:
  "multiply 0 255 = Finite 0" "multiply 1 255 = Finite 255"
  by (simp_all add: number_eval)

lemma rounded_texts:
  "round_hex h (Finite 0) = ascii ''0''" "round_hex h (Finite 255) = ascii ''ff''"
  "round_hex h (Finite (1 / 2)) = ascii ''1''"
  "round_text h (Finite 0) = ascii ''0''" "round_text h (Finite (1 / 2)) = ascii ''1''"
  by (simp_all add: number_eval ascii_def)

text \<open>
  C3. For a colour whose alpha is 1 and whose channels lie between 0 and 1,
  \<open>colorToHex\<close> returns the number sign followed, for each of r, g and b, by the
  channel scaled by 255 and rounded, an integer from 0 to 255, as two hexadecimal
  digits with a leading zero where needed. The scaled channel is the double product,
  which is within \<open>2^(-46)\<close> of the exact product, and the rounding is to the nearest
  integer, a tie going up. Black gives #000000 and white #ffffff; the double
  0.00196078431372549, whose product with 255 is the double one half, gives 01.
\<close>

theorem colorToHex_opaque:
  "(0 \<le> r \<and> r \<le> 1 \<and> 0 \<le> g \<and> g \<le> 1 \<and> 0 \<le> b \<and> b \<le> 1 \<longrightarrow>
      colorToHex h (VColor r g b (Some 1))
        = Str (35 # two_hex_digits (channel_255 r) @ two_hex_digits (channel_255 g)
                 @ two_hex_digits (channel_255 b))
      \<and> channel_255 r \<le> 255 \<and> channel_255 g \<le> 255 \<and> channel_255 b \<le> 255)
   \<and> (0 \<le> x \<and> x \<le> 1 \<longrightarrow>
        (\<exists>p. multiply x 255 = Finite p \<and> \<bar>p - x * 255\<bar> \<le> 1 / 2 ^ 46
            \<and> int (channel_255 x) = \<lfloor>p + 1 / 2\<rfloor>))
   \<and> colorToHex h (VColor 0 0 0 (Some 1)) = Str (ascii ''#000000'')
   \<and> colorToHex h (VColor 1 1 1 (Some 1)) = Str (ascii ''#ffffff'')
   \<and> colorToHex h (VColor (282578800148737 / 144115188075855872) 0 0 (Some 1))
       = Str (ascii ''#010000'')"
proof -
  have "colorToHex h (VColor 0 0 0 (Some 1)) = Str (ascii ''#000000'')"
    by (simp add: toHex_def black_and_white rounded_texts padStart_def ascii_def)
  moreover have "colorToHex h (VColor 1 1 1 (Some 1)) = Str (ascii ''#ffffff'')"
    by (simp add: toHex_def black_and_white rounded_texts padStart_def ascii_def)
  moreover have "colorToHex h (VColor (282578800148737 / 144115188075855872) 0 0 (Some 1))
       = Str (ascii ''#010000'')"
    by (simp add: toHex_def black_and_white boundary_product rounded_texts padStart_def ascii_def)
  moreover have "0 \<le> x \<and> x \<le> 1 \<longrightarrow>
        (\<exists>p. multiply x 255 = Finite p \<and> \<bar>p - x * 255\<bar> \<le> 1 / 2 ^ 46
            \<and> int (channel_255 x) = \<lfloor>p + 1 / 2\<rfloor>)"
    using channel_product [of x] by (auto simp: Math_round_def)
  ultimately show ?thesis
    by (simp add: toHex_channel channel_255_range)
qed

text \<open>The theorem at r = 1/2, g = 1/4, b = 1/64: the text is #804004.\<close>

theorem colorToHex_opaque_witness:
  "(0::rat) \<le> 1 / 2 \<and> (1 / 2 :: rat) \<le> 1 \<and> (0::rat) \<le> 1 / 4 \<and> (1 / 4 :: rat) \<le> 1
   \<and> (0::rat) \<le> 1 / 64 \<and> (1 / 64 :: rat) \<le> 1
   \<and> channel_255 (1 / 2) = 128 \<and> channel_255 (1 / 4) = 64 \<and> channel_255 (1 / 64) = 4
   \<and> (\<forall>h. colorToHex h (VColor (1 / 2) (1 / 4) (1 / 64) (Some 1)) = Str (ascii ''#804004''))"
proof -
  have c: "channel_255 (1 / 2) = 128" "channel_255 (1 / 4) = 64" "channel_255 (1 / 64) = 4"
    by (simp_all add: channel_255_def number_eval)
  have "two_hex_digits 128 = ascii ''80''" "two_hex_digits 64 = ascii ''40''"
    "two_hex_digits 4 = ascii ''04''"
    by (simp_all add: two_hex_digits_def digit_unit_def ascii_def)
  then show ?thesis
    using colorToHex_opaque [of "1 / 2" "1 / 4" "1 / 64"] c by (simp add: ascii_def)
qed

text \<open>
  C4. For a colour whose alpha is below 1, \<open>colorToHex\<close> returns the text
  rgba(R, G, B, A): R, G and B are the texts of the channels scaled by 255 (the double
  product) and rounded, and A is the text of the alpha itself, with no rounding applied
  (for an alpha that is not an integer, it is what the host prints for that very
  number). For a channel between 0 and 1, as the channels of a COLOR value are, the
  rounded number is an integer from 0 to 255 and its text is its decimal digits. The
  double 0.00196078431372549 gives 1.
\<close>

theorem colorToHex_translucent:
  "(a < 1 \<longrightarrow>
      colorToHex h (VColor r g b (Some a))
        = Str (ascii ''rgba('' @ round_text h (multiply r 255) @ ascii '', ''
               @ round_text h (multiply g 255) @ ascii '', ''
               @ round_text h (multiply b 255) @ ascii '', ''
               @ number_toString h a @ ascii '')'')
      \<and> (of_int \<lfloor>a\<rfloor> \<noteq> a \<longrightarrow> number_toString h a = number_to_string h a))
   \<and> (0 \<le> x \<and> x \<le> 1 \<longrightarrow>
        round_text h (multiply x 255) = decimal_digits (channel_255 x) \<and> channel_255 x \<le> 255
        \<and> (\<exists>p. multiply x 255 = Finite p \<and> int (channel_255 x) = \<lfloor>p + 1 / 2\<rfloor>))
   \<and> colorToHex h (VColor (282578800148737 / 144115188075855872) 0 0 (Some (1 / 2)))
       = Str (ascii ''rgba(1, 0, 0, '' @ number_to_string h (1 / 2) @ ascii '')'')"
proof -
  have "of_int \<lfloor>a\<rfloor> \<noteq> a \<longrightarrow> number_toString h a = number_to_string h a"
    by (simp add: number_toString_def)
  moreover have "0 \<le> x \<and> x \<le> 1 \<longrightarrow>
        (\<exists>p. multiply x 255 = Finite p \<and> int (channel_255 x) = \<lfloor>p + 1 / 2\<rfloor>)"
    using channel_product [of x] by (auto simp: Math_round_def)
  moreover have "number_toString h (1 / 2) = number_to_string h (1 / 2)"
    by (simp add: number_toString_def floor_rat_one_div)
  then have "colorToHex h (VColor (282578800148737 / 144115188075855872) 0 0 (Some (1 / 2)))
       = Str (ascii ''rgba(1, 0, 0, '' @ number_to_string h (1 / 2) @ ascii '')'')"
    by (simp add: black_and_white boundary_product rounded_texts ascii_def)
  ultimately show ?thesis
    by (simp add: channel_text channel_255_range)
qed

text \<open>
  The theorem at r = 1/2, g = 1/4, b = 1/64 and alpha 1/2: the text is
  rgba(128, 64, 4, A) with A the host's text of 1/2.
\<close>

theorem colorToHex_translucent_witness:
  "(1 / 2 :: rat) < 1 \<and> (0::rat) \<le> 1 / 4 \<and> (1 / 4 :: rat) \<le> 1
   \<and> rat_of_int \<lfloor>1 / 2 :: rat\<rfloor> \<noteq> 1 / 2
   \<and> channel_255 (1 / 4) = 64
   \<and> (\<forall>h. round_text h (multiply (1 / 4) 255) = ascii ''64'')
   \<and> (\<forall>h. colorToHex h (VColor (1 / 2) (1 / 4) (1 / 64) (Some (1 / 2)))
          = Str (ascii ''rgba(128, 64, 4, '' @ number_to_string h (1 / 2) @ ascii '')''))"
proof -
  have c: "channel_255 (1 / 2) = 128" "channel_255 (1 / 4) = 64" "channel_255 (1 / 64) = 4"
    by (simp_all add: channel_255_def number_eval)
  have d: "decimal_digits 128 = ascii ''128''" "decimal_digits 64 = ascii ''64''"
    "decimal_digits 4 = ascii ''4''"
    by (simp_all add: decimal_digits_def ascii_def)
  have half: "rat_of_int \<lfloor>1 / 2 :: rat\<rfloor> \<noteq> 1 / 2"
    by (simp add: floor_rat_one_div)
  have t: "\<And>h. round_text h (multiply (1 / 2) 255) = ascii ''128''"
    "\<And>h. round_text h (multiply (1 / 4) 255) = ascii ''64''"
    "\<And>h. round_text h (multiply (1 / 64) 255) = ascii ''4''"
    using colorToHex_translucent [where x = "1 / 2"] colorToHex_translucent [where x = "1 / 4"]
      colorToHex_translucent [where x = "1 / 64"] c d
    by simp_all
  have "\<And>h. colorToHex h (VColor (1 / 2) (1 / 4) (1 / 64) (Some (1 / 2)))
          = Str (ascii ''rgba(128, 64, 4, '' @ number_to_string h (1 / 2) @ ascii '')'')"
    using colorToHex_translucent [where a = "1 / 2" and r = "1 / 2" and g = "1 / 4" and b = "1 / 64"]
      half t
    by (simp add: ascii_def)
  with c half t show ?thesis by simp
qed

section \<open>C5: the two adapters side by side\<close>

lemma known_types_same_value:
  "ty \<in> {ascii ''COLOR'', ascii ''FLOAT'', ascii ''STRING'', ascii ''BOOLEAN''} \<Longrightarrow>
   transformVariableValue h ty v = transformValue h ty v"
  by (auto simp: transformVariableValue_def transformValue_def)

lemma unknown_type_values:
  "ty \<notin> {ascii ''COLOR'', ascii ''FLOAT'', ascii ''STRING'', ascii ''BOOLEAN''} \<Longrightarrow>
   transformVariableValue h ty v = json_of_value v \<and> transformValue h ty v = Leaf Null"
  by (auto simp: transformVariableValue_def transformValue_def)

lemma color_category_agreement:
  "determineTokenCategory name (ascii ''COLOR'') = name_category name
   \<longleftrightarrow> spec_name_category name = Color"
  by (auto simp: determineTokenCategory_def name_category_spec)

lemma string_category_agreement:
  "determineTokenCategory name (ascii ''STRING'') = name_category name
   \<longleftrightarrow> spec_name_category name = Typography"
  by (auto simp: determineTokenCategory_def name_category_spec ascii_def)

lemma float_category_agreement:
  "\<not> list_ex (contains_word name)
       [ascii ''color'', ascii ''background'', ascii ''foreground'', ascii ''border'',
        ascii ''font'', ascii ''text'', ascii ''typography'', ascii ''shadow'',
        ascii ''spacing'', ascii ''padding'', ascii ''margin''] \<Longrightarrow>
   determineTokenCategory name (ascii ''FLOAT'') = name_category name"
  by (simp add: determineTokenCategory_def name_category_spec spec_name_category_def
      includes_contains Let_def) (simp add: ascii_def)

text \<open>
  C5. The value conversion of the two adapters is the same for the four declared types
  COLOR, FLOAT, STRING and BOOLEAN (for any other type the plugin passes the value on
  and the Variables-API adapter gives null). The categorization is not the same rule:
  the plugin decides by the resolved type and then by key words, the Variables-API
  adapter by the name alone. The two categories agree on a COLOR variable exactly when
  its name is in the color group, on a STRING variable exactly when the name
  classifies as typography, and on every FLOAT variable whose name has none of the
  words color, background, foreground, border, font, text, typography, shadow,
  spacing, padding, margin.
\<close>

theorem adapters_agree_where:
  "(ty \<in> {ascii ''COLOR'', ascii ''FLOAT'', ascii ''STRING'', ascii ''BOOLEAN''} \<longrightarrow>
      transformVariableValue h ty v = transformValue h ty v)
   \<and> (determineTokenCategory name (ascii ''COLOR'') = name_category name
        \<longleftrightarrow> spec_name_category name = Color)
   \<and> (determineTokenCategory name (ascii ''STRING'') = name_category name
        \<longleftrightarrow> spec_name_category name = Typography)
   \<and> (\<not> list_ex (contains_word name)
           [ascii ''color'', ascii ''background'', ascii ''foreground'', ascii ''border'',
            ascii ''font'', ascii ''text'', ascii ''typography'', ascii ''shadow'',
            ascii ''spacing'', ascii ''padding'', ascii ''margin''] \<longrightarrow>
        determineTokenCategory name (ascii ''FLOAT'') = name_category name)
   \<and> (ty \<notin> {ascii ''COLOR'', ascii ''FLOAT'', ascii ''STRING'', ascii ''BOOLEAN''} \<longrightarrow>
        transformVariableValue h ty v = json_of_value v \<and> transformValue h ty v = Leaf Null)"
  using known_types_same_value [of ty h v] unknown_type_values [of ty h v]
    color_category_agreement [of name] string_category_agreement [of name]
    float_category_agreement [of name] by blast

text \<open>
  The theorem at a white COLOR value and at the FLOAT variable corner-radius-lg, whose
  name has none of the words listed.
\<close>

theorem adapters_agree_witness:
  "ascii ''COLOR'' \<in> {ascii ''COLOR'', ascii ''FLOAT'', ascii ''STRING'', ascii ''BOOLEAN''}
   \<and> (\<forall>h. transformVariableValue h (ascii ''COLOR'') (VColor 1 1 1 None)
           = transformValue h (ascii ''COLOR'') (VColor 1 1 1 None))
   \<and> \<not> list_ex (contains_word (ascii ''corner-radius-lg''))
           [ascii ''color'', ascii ''background'', ascii ''foreground'', ascii ''border'',
            ascii ''font'', ascii ''text'', ascii ''typography'', ascii ''shadow'',
            ascii ''spacing'', ascii ''padding'', ascii ''margin'']
   \<and> determineTokenCategory (ascii ''corner-radius-lg'') (ascii ''FLOAT'')
       = name_category (ascii ''corner-radius-lg'')"
proof -
  have a: "ascii ''COLOR'' \<in> {ascii ''COLOR'', ascii ''FLOAT'', ascii ''STRING'', ascii ''BOOLEAN''}"
    by simp
  have b: "\<not> list_ex (contains_word (ascii ''corner-radius-lg''))
           [ascii ''color'', ascii ''background'', ascii ''foreground'', ascii ''border'',
            ascii ''font'', ascii ''text'', ascii ''typography'', ascii ''shadow'',
            ascii ''spacing'', ascii ''padding'', ascii ''margin'']"
    by (simp add: includes_contains [symmetric] string_eval)
  show ?thesis
    using a b adapters_agree_where [of "ascii ''COLOR''" _ "VColor 1 1 1 None" "ascii ''corner-radius-lg''"]
    by blast
qed

text \<open>
  The claim as stated fails at the FLOAT variable border-width: the plugin files it
  under spacing, the Variables-API adapter under color.
\<close>

theorem adapters_disagree:
  "determineTokenCategory (ascii ''border-width'') (ascii ''FLOAT'') = Spacing
   \<and> name_category (ascii ''border-width'') = Color
   \<and> createTokenPath
       \<lparr>av_name = ascii ''border-width'', av_resolvedType = ascii ''FLOAT'',
        av_valuesByMode = [(ascii ''1:0'', VNum 2)], av_collectionId = ascii ''c1''\<rparr>
       \<lparr>col_name = ascii ''Brand'', col_modes = [(ascii ''1:0'', ascii ''Light'')]\<rparr>
       (ascii ''Light'')
       = ascii ''color.brand.light.border-width''
   \<and> determineTokenCategory (ascii ''border-width'') (ascii ''FLOAT'')
       \<noteq> name_category (ascii ''border-width'')"
  by (simp add: createTokenPath_def name_category_def determineTokenCategory_def string_eval)

section \<open>C7: the webhook\<close>

lemma text_or_type_error:
  shows "(convertible v \<longrightarrow> (\<exists>s. to_text h v = Inr s)) \<and> (\<not> convertible v \<longrightarrow> to_text h v = Inl TypeError)"
    and "(list_all convertible xs \<longrightarrow> (\<exists>s. join_text h xs = Inr s))
         \<and> (\<not> list_all convertible xs \<longrightarrow> join_text h xs = Inl TypeError)"
  by (induction h v and h xs rule: to_text_join_text.induct)
     (auto split: sum.splits if_splits)


lemma field_text_convertible:
  "convertible_field body k \<Longrightarrow> \<exists>s. field_text h body k = Inr s"
  "\<not> convertible_field body k \<Longrightarrow> field_text h body k = Inl TypeError"
  using text_or_type_error(1)
  by (auto simp: convertible_field_def field_text_def split: option.splits)

lemma processing_line_loggable:
  "loggable body \<Longrightarrow> \<exists>line. processing_line h body = Inr line"
  "\<not> loggable body \<Longrightarrow> \<exists>e. processing_line h body = Inl e"
proof -
  show "loggable body \<Longrightarrow> \<exists>line. processing_line h body = Inr line"
    using field_text_convertible(1) [of body "ascii ''repository''" h]
      field_text_convertible(1) [of body "ascii ''commit''" h]
    by (auto simp: loggable_def processing_line_def)
  show "\<not> loggable body \<Longrightarrow> \<exists>e. processing_line h body = Inl e"
    using field_text_convertible(2) [of body "ascii ''repository''" h]
      field_text_convertible(2) [of body "ascii ''commit''" h]
    by (auto simp: loggable_def processing_line_def split: sum.splits)
qed

lemma commands_text:
  "pull_command = ascii ''git pull origin main''"
  "regenerate_command = ascii ''cd scripts && npm run generate-swift''"
  by (simp_all add: pull_command_def regenerate_command_def)

lemma tokens_updated_not_loggable:
  assumes "map_of body (ascii ''event'') = Some (JStr (ascii ''tokens_updated''))"
    and "\<not> loggable body"
  shows "figma_webhook h exec now body =
           ([], \<lparr>status = 500,
                 payload = JObj [(ascii ''success'', JBool False),
                                 (ascii ''error'', JStr (ascii ''Cannot convert object to primitive value''))]\<rparr>)"
  using assms(1) processing_line_loggable(2) [OF assms(2), of h]
  by (auto simp: figma_webhook_def failure_response_def cannot_convert_def)

lemma tokens_updated_success:
  assumes "map_of body (ascii ''event'') = Some (JStr (ascii ''tokens_updated''))"
    and "loggable body"
    and "exec (ascii ''git pull origin main'') = Inr out1"
    and "exec (ascii ''cd scripts && npm run generate-swift'') = Inr out2"
  shows "figma_webhook h exec now body =
           ([ascii ''git pull origin main'', ascii ''cd scripts && npm run generate-swift''],
            \<lparr>status = 200,
             payload = JObj ([(ascii ''success'', JBool True),
                              (ascii ''message'', JStr (ascii ''Tokens updated successfully''))]
                             @ optional_field body (ascii ''repository'')
                             @ optional_field body (ascii ''commit'')
                             @ [(ascii ''timestamp'', JStr now)])\<rparr>)"
  using assms(1,3,4) processing_line_loggable(1) [OF assms(2), of h]
  by (auto simp: figma_webhook_def pull_then_regenerate_def commands_text)

lemma tokens_updated_pull_fails:
  assumes "map_of body (ascii ''event'') = Some (JStr (ascii ''tokens_updated''))"
    and "loggable body"
    and "exec (ascii ''git pull origin main'') = Inl msg"
  shows "figma_webhook h exec now body =
           ([ascii ''git pull origin main''],
            \<lparr>status = 500,
             payload = JObj [(ascii ''success'', JBool False), (ascii ''error'', JStr msg)]\<rparr>)"
  using assms(1,3) processing_line_loggable(1) [OF assms(2), of h]
  by (auto simp: figma_webhook_def pull_then_regenerate_def commands_text failure_response_def)

lemma tokens_updated_regenerate_fails:
  assumes "map_of body (ascii ''event'') = Some (JStr (ascii ''tokens_updated''))"
    and "loggable body"
    and "exec (ascii ''git pull origin main'') = Inr out1"
    and "exec (ascii ''cd scripts && npm run generate-swift'') = Inl msg"
  shows "figma_webhook h exec now body =
           ([ascii ''git pull origin main'', ascii ''cd scripts && npm run generate-swift''],
            \<lparr>status = 500,
             payload = JObj [(ascii ''success'', JBool False), (ascii ''error'', JStr msg)]\<rparr>)"
  using assms(1,3,4) processing_line_loggable(1) [OF assms(2), of h]
  by (auto simp: figma_webhook_def pull_then_regenerate_def commands_text failure_response_def)

lemma other_event_ignored:
  assumes "map_of body (ascii ''event'') \<noteq> Some (JStr (ascii ''tokens_updated''))"
  shows "figma_webhook h exec now body =
           ([], \<lparr>status = 200, payload = JObj [(ascii ''message'', JStr (ascii ''Event ignored''))]\<rparr>)"
  using assms by (simp add: figma_webhook_def)

text \<open>
  C7. A POST whose body has the event tokens_updated first logs the repository and
  the commit. When both have a text (each is absent, or a string, a number, a boolean,
  null, an object without an entry of its own under toString, or an array of such
  values), the handler runs the sequence once: the command git pull origin main, and
  when it has succeeded the command cd scripts && npm run generate-swift, nothing
  else and neither twice. When both succeed the answer is status 200 with success
  true; when a command fails, no later command is started and the answer is status 500
  with success false and that command's error message. When the repository or the
  commit has no text, no command is started and the answer is status 500 with the
  message of the conversion error. With any other event (or none) no command runs and
  the answer is status 200 with the message Event ignored.
\<close>

theorem webhook_behaviour:
  "(map_of body (ascii ''event'') = Some (JStr (ascii ''tokens_updated'')) \<longrightarrow>
      (\<not> loggable body \<longrightarrow>
         figma_webhook h exec now body =
           ([], \<lparr>status = 500,
                 payload = JObj [(ascii ''success'', JBool False),
                                 (ascii ''error'',
                                  JStr (ascii ''Cannot convert object to primitive value''))]\<rparr>))
      \<and> (loggable body \<longrightarrow>
           (\<forall>out1 out2. exec (ascii ''git pull origin main'') = Inr out1
                \<and> exec (ascii ''cd scripts && npm run generate-swift'') = Inr out2 \<longrightarrow>
              figma_webhook h exec now body =
                ([ascii ''git pull origin main'', ascii ''cd scripts && npm run generate-swift''],
                 \<lparr>status = 200,
                  payload = JObj ([(ascii ''success'', JBool True),
                                   (ascii ''message'', JStr (ascii ''Tokens updated successfully''))]
                                  @ optional_field body (ascii ''repository'')
                                  @ optional_field body (ascii ''commit'')
                                  @ [(ascii ''timestamp'', JStr now)])\<rparr>))
           \<and> (\<forall>msg. exec (ascii ''git pull origin main'') = Inl msg \<longrightarrow>
                figma_webhook h exec now body =
                  ([ascii ''git pull origin main''],
                   \<lparr>status = 500,
                    payload = JObj [(ascii ''success'', JBool False),
                                    (ascii ''error'', JStr msg)]\<rparr>))
           \<and> (\<forall>out1 msg. exec (ascii ''git pull origin main'') = Inr out1
                \<and> exec (ascii ''cd scripts && npm run generate-swift'') = Inl msg \<longrightarrow>
                figma_webhook h exec now body =
                  ([ascii ''git pull origin main'', ascii ''cd scripts && npm run generate-swift''],
                   \<lparr>status = 500,
                    payload = JObj [(ascii ''success'', JBool False),
                                    (ascii ''error'', JStr msg)]\<rparr>))))
   \<and> (map_of body (ascii ''event'') \<noteq> Some (JStr (ascii ''tokens_updated'')) \<longrightarrow>
        figma_webhook h exec now body =
          ([], \<lparr>status = 200,
                payload = JObj [(ascii ''message'', JStr (ascii ''Event ignored''))]\<rparr>))"
  using tokens_updated_not_loggable [of body h exec now]
    tokens_updated_success [of body exec _ _ h now]
    tokens_updated_pull_fails [of body exec _ h now]
    tokens_updated_regenerate_fails [of body exec _ _ h now]
    other_event_ignored [of body h exec now]
  by blast

text \<open>
  The theorem at the scenario bodies: \<open>{event: "tokens_updated", repository: "r", commit: "c"}\<close>
  with a shell where both commands succeed, where the pull fails, and where the
  regeneration fails; and \<open>{event: "other"}\<close>.
\<close>

theorem webhook_witness:
  "loggable [(ascii ''event'', JStr (ascii ''tokens_updated'')),
             (ascii ''repository'', JStr (ascii ''r'')), (ascii ''commit'', JStr (ascii ''c''))]
   \<and> (\<forall>h now. figma_webhook h (\<lambda>c. Inr []) now
       [(ascii ''event'', JStr (ascii ''tokens_updated'')),
        (ascii ''repository'', JStr (ascii ''r'')), (ascii ''commit'', JStr (ascii ''c''))]
     = ([ascii ''git pull origin main'', ascii ''cd scripts && npm run generate-swift''],
        \<lparr>status = 200,
         payload = JObj [(ascii ''success'', JBool True),
                         (ascii ''message'', JStr (ascii ''Tokens updated successfully'')),
                         (ascii ''repository'', JStr (ascii ''r'')),
                         (ascii ''commit'', JStr (ascii ''c'')),
                         (ascii ''timestamp'', JStr now)]\<rparr>))
   \<and> (\<forall>h now. figma_webhook h (\<lambda>c. Inl (ascii ''Command failed'')) now
       [(ascii ''event'', JStr (ascii ''tokens_updated''))]
     = ([ascii ''git pull origin main''],
        \<lparr>status = 500,
         payload = JObj [(ascii ''success'', JBool False),
                         (ascii ''error'', JStr (ascii ''Command failed''))]\<rparr>))
   \<and> (\<forall>h now. figma_webhook h
         (\<lambda>c. if c = ascii ''git pull origin main'' then Inr [] else Inl (ascii ''Command failed'')) now
       [(ascii ''event'', JStr (ascii ''tokens_updated''))]
     = ([ascii ''git pull origin main'', ascii ''cd scripts && npm run generate-swift''],
        \<lparr>status = 500,
         payload = JObj [(ascii ''success'', JBool False),
                         (ascii ''error'', JStr (ascii ''Command failed''))]\<rparr>))
   \<and> (\<forall>h exec now. figma_webhook h exec now [(ascii ''event'', JStr (ascii ''other''))]
     = ([], \<lparr>status = 200,
             payload = JObj [(ascii ''message'', JStr (ascii ''Event ignored''))]\<rparr>))"
proof -
  let ?ok = "[(ascii ''event'', JStr (ascii ''tokens_updated'')),
        (ascii ''repository'', JStr (ascii ''r'')), (ascii ''commit'', JStr (ascii ''c''))]"
  let ?min = "[(ascii ''event'', JStr (ascii ''tokens_updated''))]"
  let ?other = "[(ascii ''event'', JStr (ascii ''other''))]"
  let ?pull_only = "\<lambda>c. if c = ascii ''git pull origin main'' then Inr [] else Inl (ascii ''Command failed'')"
  have e1: "map_of ?ok (ascii ''event'') = Some (JStr (ascii ''tokens_updated''))"
    and e2: "map_of ?min (ascii ''event'') = Some (JStr (ascii ''tokens_updated''))"
    and e3: "map_of ?other (ascii ''event'') \<noteq> Some (JStr (ascii ''tokens_updated''))"
    by (simp_all add: ascii_def)
  have l: "loggable ?ok" "loggable ?min"
    by (simp_all add: loggable_def convertible_field_def ascii_def)
  have ne: "ascii ''cd scripts && npm run generate-swift'' \<noteq> ascii ''git pull origin main''"
    by (simp add: ascii_def)
  have o: "optional_field ?ok (ascii ''repository'') = [(ascii ''repository'', JStr (ascii ''r''))]"
    "optional_field ?ok (ascii ''commit'') = [(ascii ''commit'', JStr (ascii ''c''))]"
    by (simp_all add: optional_field_def ascii_def)
  have "\<forall>h now. figma_webhook h (\<lambda>c. Inr []) now ?ok
     = ([ascii ''git pull origin main'', ascii ''cd scripts && npm run generate-swift''],
        \<lparr>status = 200,
         payload = JObj [(ascii ''success'', JBool True),
                         (ascii ''message'', JStr (ascii ''Tokens updated successfully'')),
                         (ascii ''repository'', JStr (ascii ''r'')),
                         (ascii ''commit'', JStr (ascii ''c'')),
                         (ascii ''timestamp'', JStr now)]\<rparr>)"
    using webhook_behaviour [of ?ok _ "\<lambda>c. Inr []"] e1 l(1) o by simp
  moreover have "\<forall>h now. figma_webhook h (\<lambda>c. Inl (ascii ''Command failed'')) now ?min
     = ([ascii ''git pull origin main''],
        \<lparr>status = 500,
         payload = JObj [(ascii ''success'', JBool False),
                         (ascii ''error'', JStr (ascii ''Command failed''))]\<rparr>)"
    using webhook_behaviour [of ?min _ "\<lambda>c. Inl (ascii ''Command failed'')"] e2 l(2) by simp
  moreover have "\<forall>h now. figma_webhook h ?pull_only now ?min
     = ([ascii ''git pull origin main'', ascii ''cd scripts && npm run generate-swift''],
        \<lparr>status = 500,
         payload = JObj [(ascii ''success'', JBool False),
                         (ascii ''error'', JStr (ascii ''Command failed''))]\<rparr>)"
    using webhook_behaviour [of ?min _ ?pull_only] e2 l(2) ne by simp
  moreover have "\<forall>h exec now. figma_webhook h exec now ?other
     = ([], \<lparr>status = 200,
             payload = JObj [(ascii ''message'', JStr (ascii ''Event ignored''))]\<rparr>)"
    using webhook_behaviour [of ?other] e3 by simp
  ultimately show ?thesis using l(1) by blast
qed

text \<open>
  The claim as stated fails at the body \<open>{event: "tokens_updated", repository: {toString: 1}}\<close>:
  with a shell where every command would succeed, no command is started and the answer
  is status 500. And it fails where the pull fails: the sequence stops there, and the
  regeneration is not run.
\<close>

theorem webhook_no_command:
  "(\<forall>h now. figma_webhook h (\<lambda>c. Inr []) now
       [(ascii ''event'', JStr (ascii ''tokens_updated'')),
        (ascii ''repository'', JObj [(ascii ''toString'', JNum (Finite 1))])]
     = ([], \<lparr>status = 500,
             payload = JObj [(ascii ''success'', JBool False),
                             (ascii ''error'',
                              JStr (ascii ''Cannot convert object to primitive value''))]\<rparr>))
   \<and> (\<forall>h now. figma_webhook h (\<lambda>c. Inl (ascii ''Command failed'')) now
       [(ascii ''event'', JStr (ascii ''tokens_updated'')),
        (ascii ''repository'', JStr (ascii ''r'')), (ascii ''commit'', JStr (ascii ''c''))]
     = ([ascii ''git pull origin main''],
        \<lparr>status = 500,
         payload = JObj [(ascii ''success'', JBool False),
                         (ascii ''error'', JStr (ascii ''Command failed''))]\<rparr>))"
  by (simp add: figma_webhook_def processing_line_def field_text_def pull_then_regenerate_def
      pull_command_def failure_response_def cannot_convert_def ascii_def)

section \<open>C8: missing credentials\<close>

lemma constructor_exits:
  assumes "env (ascii ''FIGMA_ACCESS_TOKEN'') = None \<or> env (ascii ''FIGMA_ACCESS_TOKEN'') = Some []
           \<or> env (ascii ''FIGMA_FILE_KEY'') = None \<or> env (ascii ''FIGMA_FILE_KEY'') = Some []"
  shows "FigmaSync_constructor env = (map Console_error missing_credentials_messages, Inl 1)"
  using assms by (auto simp: FigmaSync_constructor_def Let_def split: option.splits)

text \<open>With both variables set, the first thing the script does is the request.\<close>

lemma credentials_reach_network:
  assumes "env (ascii ''FIGMA_ACCESS_TOKEN'') = Some token" "token \<noteq> []"
    and "env (ascii ''FIGMA_FILE_KEY'') = Some file" "file \<noteq> []"
  shows "\<exists>evs. fst (FigmaSync_main h env w) = Http_get (variables_url file) token # evs"
  using assms
  by (auto simp: FigmaSync_main_def FigmaSync_constructor_def run_def Let_def
      split: sum.splits prod.splits exn.splits)

text \<open>
  C8. When the access token or the file key is not set in the environment (or is set
  to the empty string), the script prints the two lines of its message on the error
  console and exits with status 1. These are all its events: no request is sent and
  no token store is written.
\<close>

theorem missing_credentials_exit:
  "env (ascii ''FIGMA_ACCESS_TOKEN'') = None \<or> env (ascii ''FIGMA_ACCESS_TOKEN'') = Some []
     \<or> env (ascii ''FIGMA_FILE_KEY'') = None \<or> env (ascii ''FIGMA_FILE_KEY'') = Some [] \<longrightarrow>
   FigmaSync_main h env w =
     ([Console_error ([10060] @ ascii '' Missing required environment variables:''),
       Console_error (ascii ''   FIGMA_ACCESS_TOKEN and FIGMA_FILE_KEY must be set in .env file'')],
      1)
   \<and> (\<forall>url token. Http_get url token \<notin> set (fst (FigmaSync_main h env w)))
   \<and> (\<forall>doc. Write_tokens doc \<notin> set (fst (FigmaSync_main h env w)))
   \<and> snd (FigmaSync_main h env w) \<noteq> 0"
  by (auto simp: FigmaSync_main_def constructor_exits missing_credentials_messages_def)

text \<open>
  The theorem at an environment that has the file key and no access token, whatever
  the network would answer.
\<close>

theorem missing_credentials_witness:
  "(\<lambda>k. if k = ascii ''FIGMA_FILE_KEY'' then Some (ascii ''abc123'') else None) (ascii ''FIGMA_ACCESS_TOKEN'') = None
   \<and> (\<forall>h w. FigmaSync_main h (\<lambda>k. if k = ascii ''FIGMA_FILE_KEY'' then Some (ascii ''abc123'') else None) w =
     ([Console_error ([10060] @ ascii '' Missing required environment variables:''),
       Console_error (ascii ''   FIGMA_ACCESS_TOKEN and FIGMA_FILE_KEY must be set in .env file'')],
      1))"
proof -
  let ?env = "\<lambda>k. if k = ascii ''FIGMA_FILE_KEY'' then Some (ascii ''abc123'') else None"
  have none: "?env (ascii ''FIGMA_ACCESS_TOKEN'') = None"
    by (simp add: ascii_def)
  then show ?thesis
    using missing_credentials_exit [of ?env] by blast
qed

section \<open>C9: the renderer on the scenario store\<close>

lemma scenario_colors:
  "generateColors timestamp scenario_store =
     Inr (colors_header timestamp @ primary_line @ [10] @ ascii ''}'' @ [10])"
  by (simp add: generateColors_def scenario_store_def or_empty_def color_line_def ascii_def
      toLowerCase_def toLowerCase_unit_def primary_line_def)

lemma scenario_spacing:
  "generateSpacing h timestamp scenario_store =
     Inr (spacing_header timestamp @ small_line @ [10] @ ascii ''}'' @ [10])"
  by (simp add: generateSpacing_def scenario_store_def or_empty_def spacing_line_def ascii_def
      toLowerCase_def toLowerCase_unit_def number_toString_def int_toString_def
      radix_digits.simps digit_unit_def small_line_def)

lemma header_ends_line:
  "\<exists>pre. colors_header timestamp = pre @ [10]"
  "\<exists>pre. spacing_header timestamp = pre @ [10]"
  by (simp_all add: colors_header_def spacing_header_def ascii_def)

lemma line_after_header:
  assumes "\<exists>pre. header = pre @ [10]"
  shows "has_line (header @ line @ [10] @ rest) line"
proof -
  from assms obtain pre where "header = pre @ [10]" ..
  then have "header @ line @ [10] @ rest = pre @ ([10] @ line @ [10]) @ rest"
    by simp
  then show ?thesis
    unfolding has_line_def sublist_def by blast
qed

text \<open>
  C9. For the store \<open>{color: {primary: {value: "#007AFF"}}, spacing: {small: {value: 8}}}\<close>
  the renderer produces a colour file with the line that binds primary to the colour
  constructor applied to the text "#007AFF", and a spacing file with the line that binds
  small to the number 8; at every time stamp, and whatever the host prints for other
  numbers.
\<close>

theorem scenario_rendering:
  "(\<exists>output. generateColors timestamp scenario_store = Inr output \<and> has_line output primary_line)
   \<and> (\<exists>output. generateSpacing h timestamp scenario_store = Inr output \<and> has_line output small_line)
   \<and> primary_line = ascii ''    static let primary = Color(hex: '' @ [34] @ ascii ''#007AFF'' @ [34] @ ascii '')''
   \<and> small_line = ascii ''    static let small: CGFloat = 8''"
proof -
  have "has_line (colors_header timestamp @ primary_line @ [10] @ ascii ''}'' @ [10]) primary_line"
    by (rule line_after_header [OF header_ends_line(1)])
  moreover have "has_line (spacing_header timestamp @ small_line @ [10] @ ascii ''}'' @ [10]) small_line"
    by (rule line_after_header [OF header_ends_line(2)])
  ultimately show ?thesis
    by (simp only: scenario_colors scenario_spacing primary_line_def small_line_def) simp
qed

section \<open>Objects as lists of entries\<close>




lemma obj_set_all:
  "list_all P (map snd fs) \<Longrightarrow> P v \<Longrightarrow> list_all P (map snd (obj_set k v fs))"
  by (induction fs) auto

section \<open>C10: the last write wins\<close>





















section \<open>C6: the shape of the stores\<close>







subsection \<open>The Variables-API store\<close>




























subsection \<open>The file-content stores\<close>











subsection \<open>The claim\<close>






end
